theory Spec2Isabelle
  imports Complex_Main "HOL-Library.Multiset"
begin

section \<open>Data model\<close>

text \<open>
  A Python \<open>str\<close> is modelled as a \<open>string\<close>, one \<open>char\<close> standing for one character
  (Python's \<open>len\<close> and slices and Postgres' \<open>LENGTH\<close> all count characters). A UUID is
  an opaque natural number, a timestamp a natural number, a similarity score and an
  embedding component a real number (a float that is not NaN).
\<close>

type_synonym uuid = nat
type_synonym timestamp = nat

text \<open>
  The exceptions the modelled code can raise. \<open>ValidationError\<close> is pydantic's, raised
  by the constructor of a \<open>BaseModel\<close>; \<open>IntegrityError\<close> (with the name of the violated
  constraint), \<open>DataError\<close> (a value the database cannot store) and \<open>OperationalError\<close>
  (no connection) come from the database driver;
  \<open>GeminiError\<close> and \<open>QdrantError\<close> are failures of the remote services.
\<close>

datatype error =
    ValidationError
  | IntegrityError string
  | DataError
  | OperationalError
  | GeminiError
  | QdrantError
  | IndexError
  | TypeError

text \<open>\<open>src/config.py\<close>: the settings the query pipeline reads.\<close>

record settings =
  gemini_embedding_model :: string
  gemini_chat_model :: string
  qdrant_collection_name :: string
  top_k_results :: int
  similarity_threshold :: real
  max_conversation_context :: int

definition default_settings :: settings where
  "default_settings =
     \<lparr> gemini_embedding_model = ''gemini-embedding-001'',
       gemini_chat_model = ''gemini-2.5-flash'',
       qdrant_collection_name = ''ai_native_book'',
       top_k_results = 5,
       similarity_threshold = 0.6,
       max_conversation_context = 6 \<rparr>"

text \<open>The payload of a stored point: a key that is absent from the dict is \<open>None\<close>.
  Keys that are present carry values of the types \<open>ChunkPayload\<close> declares.\<close>

record payload =
  p_title :: "string option"
  p_file_path :: "string option"
  p_chunk_text :: "string option"
  p_chunk_index :: "int option"
  p_total_chunks :: "int option"

record scored_point =
  sp_payload :: payload
  sp_score :: real

text \<open>The dict that \<open>VectorStoreService.search\<close> builds for each result.\<close>

record chunk =
  title :: string
  file_path :: string
  chunk_text :: string
  chunk_index :: int
  total_chunks :: int
  relevance_score :: real

text \<open>\<open>models/chat.py\<close>: \<open>Source\<close>.\<close>

record source =
  src_title :: string
  src_file_path :: string
  src_relevance_score :: real
  excerpt :: string

text \<open>The \<open>context_metadata\<close> dict of \<open>process_query\<close>, stored in \<open>context_used\<close>.\<close>

record chunk_summary =
  cs_title :: string
  cs_file_path :: string
  cs_relevance_score :: real

record context_metadata =
  cm_chunks :: "chunk_summary list"
  retrieval_count :: nat

text \<open>\<open>ChatSessionModel\<close> and \<open>ChatMessageModel\<close>: the rows of the two tables.\<close>

record session_row =
  s_session_id :: uuid
  s_created_at :: timestamp
  last_activity_at :: timestamp

record message_row =
  message_id :: uuid
  session_id :: uuid
  role :: string
  content :: string
  selected_text :: "string option"
  context_used :: "context_metadata option"
  created_at :: timestamp

text \<open>The dict that \<open>get_conversation_history\<close> returns for each message.\<close>

record history_entry =
  h_message_id :: uuid
  h_role :: string
  h_content :: string
  h_selected_text :: "string option"
  h_context_used :: "context_metadata option"
  h_created_at :: timestamp

text \<open>Requests to the Gemini API: \<open>embed_content\<close> and \<open>generate_content\<close>.\<close>

datatype embed_contents = Single string | Batch "string list"

record embed_request =
  e_model :: string
  e_contents :: embed_contents
  task_type :: string

record gemini_content =
  c_role :: string
  c_parts :: "string list"

record llm_request =
  l_model :: string
  l_contents :: "gemini_content list"
  system_instruction :: string
  temperature :: real
  max_output_tokens :: nat

section \<open>Environment and state\<close>

text \<open>
  The remote services are parameters: what the embedding API, the vector index and the
  chat model answer to a request, whether the \<open>n\<close>-th database transaction fails for
  lack of connectivity, and what the \<open>n\<close>-th call of \<open>uuid4\<close> and of \<open>datetime.utcnow\<close>
  return. \<open>generate_content\<close> answers with \<open>response.text\<close>, which may be \<open>None\<close>.
\<close>

record env =
  cfg :: settings
  embed_content :: "embed_request \<Rightarrow> error + real list list"
  qdrant_search :: "string \<Rightarrow> real list \<Rightarrow> int \<Rightarrow> real \<Rightarrow> error + scored_point list"
  generate_content :: "llm_request \<Rightarrow> error + string option"
  db_down :: "nat \<Rightarrow> bool"
  uuid4 :: "nat \<Rightarrow> uuid"
  utcnow :: "nat \<Rightarrow> timestamp"

text \<open>
  The state: the two tables (rows in insertion order), the number of database
  transactions, of \<open>uuid4\<close> calls and of clock readings so far, and the requests sent so
  far to the embedding API and to the chat model.
\<close>

record world =
  chat_sessions :: "session_row list"
  chat_messages :: "message_row list"
  db_txn :: nat
  uuid_calls :: nat
  clock_reads :: nat
  embed_log :: "embed_request list"
  llm_log :: "llm_request list"

type_synonym 'a io = "world \<Rightarrow> (error + 'a) \<times> world"

definition return_io :: "'a \<Rightarrow> 'a io" where
  "return_io x = (\<lambda>w. (Inr x, w))"

text \<open>Sequencing: an exception of the first computation skips the rest.\<close>

definition bind_io :: "'a io \<Rightarrow> ('a \<Rightarrow> 'b io) \<Rightarrow> 'b io" where
  "bind_io m f = (\<lambda>w. case m w of (Inl e, w') \<Rightarrow> (Inl e, w') | (Inr x, w') \<Rightarrow> f x w')"

definition lift_io :: "error + 'a \<Rightarrow> 'a io" where
  "lift_io r = (\<lambda>w. (r, w))"

section \<open>Conversation store (\<open>services/conversation.py\<close>)\<close>

definition session_ids :: "world \<Rightarrow> uuid set" where
  "session_ids w = s_session_id ` set (chat_sessions w)"

definition message_ids :: "world \<Rightarrow> uuid set" where
  "message_ids w = message_id ` set (chat_messages w)"

text \<open>
  \<open>session.add(new_session); await session.commit()\<close> on \<open>chat_sessions\<close>: the
  transaction fails when the database is unreachable, and the INSERT is refused when the
  primary key exists already or the table's check constraint
  \<open>chk_activity_after_creation\<close> fails.
\<close>

definition commit_session :: "env \<Rightarrow> session_row \<Rightarrow> unit io" where
  "commit_session env row = (\<lambda>w.
     let w' = w\<lparr>db_txn := db_txn w + 1\<rparr> in
     if db_down env (db_txn w) then (Inl OperationalError, w')
     else if \<not> (last_activity_at row \<ge> s_created_at row)
       then (Inl (IntegrityError ''chk_activity_after_creation''), w')
     else if s_session_id row \<in> session_ids w
       then (Inl (IntegrityError ''chat_sessions_pkey''), w')
     else (Inr (), w'\<lparr>chat_sessions := chat_sessions w @ [row]\<rparr>))"

text \<open>
  Postgres refuses a text value that contains the character U+0000, in a text column and
  in a string inside a JSONB value.
\<close>

definition has_nul :: "string \<Rightarrow> bool" where
  "has_nul s \<longleftrightarrow> CHR 0x00 \<in> set s"

definition context_has_nul :: "context_metadata \<Rightarrow> bool" where
  "context_has_nul ctx \<longleftrightarrow>
     list_ex (\<lambda>c. has_nul (cs_title c) \<or> has_nul (cs_file_path c)) (cm_chunks ctx)"

definition row_has_nul :: "message_row \<Rightarrow> bool" where
  "row_has_nul row \<longleftrightarrow>
     has_nul (role row) \<or> has_nul (content row)
     \<or> (case selected_text row of None \<Rightarrow> False | Some t \<Rightarrow> has_nul t)
     \<or> (case context_used row of None \<Rightarrow> False | Some ctx \<Rightarrow> context_has_nul ctx)"

text \<open>
  Storing a string into a \<open>String(20)\<close> column: a string of more than 20 characters is
  refused, unless the characters beyond the 20th are all spaces; then the first 20
  characters are stored.
\<close>

definition varchar20 :: "string \<Rightarrow> string option" where
  "varchar20 s =
     (if length s \<le> 20 then Some s
      else if list_all (\<lambda>c. c = CHR 0x20) (drop 20 s) then Some (take 20 s)
      else None)"

text \<open>
  \<open>session.add(message); await session.commit()\<close> on \<open>chat_messages\<close>. The database
  refuses the values it cannot store (a U+0000, a \<open>role\<close> too long for \<open>String(20)\<close>) with
  a data error, and enforces what \<open>ChatMessageModel\<close> declares: the check constraints
  \<open>chk_content_length\<close> and \<open>chk_valid_role\<close> (Postgres checks them in the order of their
  names), the primary key and the foreign key to \<open>chat_sessions\<close>.
\<close>

definition commit_message :: "env \<Rightarrow> message_row \<Rightarrow> unit io" where
  "commit_message env row = (\<lambda>w.
     let w' = w\<lparr>db_txn := db_txn w + 1\<rparr> in
     if db_down env (db_txn w) then (Inl OperationalError, w')
     else if row_has_nul row then (Inl DataError, w')
     else case varchar20 (role row) of
       None \<Rightarrow> (Inl DataError, w')
     | Some stored_role \<Rightarrow>
         if \<not> (length (content row) \<ge> 1 \<and> length (content row) \<le> 10000)
           then (Inl (IntegrityError ''chk_content_length''), w')
         else if \<not> (stored_role = ''user'' \<or> stored_role = ''assistant'')
           then (Inl (IntegrityError ''chk_valid_role''), w')
         else if message_id row \<in> message_ids w
           then (Inl (IntegrityError ''chat_messages_pkey''), w')
         else if session_id row \<notin> session_ids w
           then (Inl (IntegrityError ''chat_messages_session_id_fkey''), w')
         else (Inr (), w'\<lparr>chat_messages := chat_messages w @ [row\<lparr>role := stored_role\<rparr>]\<rparr>))"

text \<open>\<open>ChatSessionModel()\<close>: the column defaults call \<open>uuid4\<close> once and \<open>utcnow\<close> twice.\<close>

definition new_session_row :: "env \<Rightarrow> world \<Rightarrow> session_row \<times> world" where
  "new_session_row env w =
     (\<lparr> s_session_id = uuid4 env (uuid_calls w),
        s_created_at = utcnow env (clock_reads w),
        last_activity_at = utcnow env (clock_reads w + 1) \<rparr>,
      w\<lparr>uuid_calls := uuid_calls w + 1, clock_reads := clock_reads w + 2\<rparr>)"

definition create_session :: "env \<Rightarrow> uuid io" where
  "create_session env = (\<lambda>w.
     let (new_session, w1) = new_session_row env w in
     bind_io (commit_session env new_session)
       (\<lambda>_. return_io (s_session_id new_session)) w1)"

text \<open>\<open>ChatMessageModel(...)\<close>: the constructor validates nothing; \<open>message_id\<close> and
  \<open>created_at\<close> are column defaults.\<close>

definition new_message_row ::
  "env \<Rightarrow> uuid \<Rightarrow> string \<Rightarrow> string \<Rightarrow> string option \<Rightarrow> context_metadata option \<Rightarrow>
   world \<Rightarrow> message_row \<times> world" where
  "new_message_row env sid r c sel ctx w =
     (\<lparr> message_id = uuid4 env (uuid_calls w),
        session_id = sid,
        role = r,
        content = c,
        selected_text = sel,
        context_used = ctx,
        created_at = utcnow env (clock_reads w) \<rparr>,
      w\<lparr>uuid_calls := uuid_calls w + 1, clock_reads := clock_reads w + 1\<rparr>)"

definition save_message ::
  "env \<Rightarrow> uuid \<Rightarrow> string \<Rightarrow> string \<Rightarrow> string option \<Rightarrow> context_metadata option \<Rightarrow> uuid io" where
  "save_message env sid r c sel ctx = (\<lambda>w.
     let (message, w1) = new_message_row env sid r c sel ctx w in
     bind_io (commit_message env message)
       (\<lambda>_. return_io (message_id message)) w1)"

definition history_entry_of :: "message_row \<Rightarrow> history_entry" where
  "history_entry_of msg =
     \<lparr> h_message_id = message_id msg,
       h_role = role msg,
       h_content = content msg,
       h_selected_text = selected_text msg,
       h_context_used = context_used msg,
       h_created_at = created_at msg \<rparr>"

text \<open>
  \<open>select(ChatMessageModel).where(session_id == ...).order_by(created_at.asc())\<close>.
  SQL leaves the order of rows with equal \<open>created_at\<close> open; the model keeps them in
  insertion order.
\<close>

definition select_messages :: "uuid \<Rightarrow> world \<Rightarrow> message_row list" where
  "select_messages sid w =
     sort_key created_at (filter (\<lambda>m. session_id m = sid) (chat_messages w))"

definition get_conversation_history :: "env \<Rightarrow> uuid \<Rightarrow> history_entry list io" where
  "get_conversation_history env sid = (\<lambda>w.
     let w' = w\<lparr>db_txn := db_txn w + 1\<rparr> in
     if db_down env (db_txn w) then (Inl OperationalError, w')
     else (Inr (map history_entry_of (select_messages sid w)), w'))"

section \<open>Embedding provider (\<open>services/embedding.py\<close>)\<close>

text \<open>Both operations call \<open>client.models.embed_content\<close>; the request is logged.
  \<open>query_request\<close> is the request of \<open>generate_embedding\<close>: the model, the text as it
  is, and the task type.\<close>

definition query_request :: "env \<Rightarrow> string \<Rightarrow> embed_request" where
  "query_request env text =
     \<lparr> e_model = gemini_embedding_model (cfg env),
       e_contents = Single text,
       task_type = ''RETRIEVAL_QUERY'' \<rparr>"

definition generate_embedding :: "env \<Rightarrow> string \<Rightarrow> real list io" where
  "generate_embedding env text = (\<lambda>w.
     let req = query_request env text;
         w' = w\<lparr>embed_log := embed_log w @ [req]\<rparr>
     in case embed_content env req of
          Inl e \<Rightarrow> (Inl e, w')
        | Inr embeddings \<Rightarrow>
            (case embeddings of
               [] \<Rightarrow> (Inl IndexError, w')
             | embedding # _ \<Rightarrow> (Inr embedding, w')))"

definition generate_embeddings_batch :: "env \<Rightarrow> string list \<Rightarrow> real list list io" where
  "generate_embeddings_batch env texts = (\<lambda>w.
     let req = \<lparr> e_model = gemini_embedding_model (cfg env),
                 e_contents = Batch texts,
                 task_type = ''RETRIEVAL_DOCUMENT'' \<rparr>;
         w' = w\<lparr>embed_log := embed_log w @ [req]\<rparr>
     in case embed_content env req of
          Inl e \<Rightarrow> (Inl e, w')
        | Inr embeddings \<Rightarrow> (Inr embeddings, w'))"

section \<open>Vector index (\<open>services/vector_store.py\<close>)\<close>

text \<open>\<open>result.payload.get(key, default)\<close> for each of the five keys.\<close>

definition chunk_of_point :: "scored_point \<Rightarrow> chunk" where
  "chunk_of_point result =
     \<lparr> title = (case p_title (sp_payload result) of None \<Rightarrow> ''Untitled'' | Some v \<Rightarrow> v),
       file_path = (case p_file_path (sp_payload result) of None \<Rightarrow> [] | Some v \<Rightarrow> v),
       chunk_text = (case p_chunk_text (sp_payload result) of None \<Rightarrow> [] | Some v \<Rightarrow> v),
       chunk_index = (case p_chunk_index (sp_payload result) of None \<Rightarrow> 0 | Some v \<Rightarrow> v),
       total_chunks = (case p_total_chunks (sp_payload result) of None \<Rightarrow> 1 | Some v \<Rightarrow> v),
       relevance_score = sp_score result \<rparr>"

definition search :: "env \<Rightarrow> real list \<Rightarrow> int \<Rightarrow> real \<Rightarrow> chunk list io" where
  "search env query_embedding top_k score_threshold = (\<lambda>w.
     case qdrant_search env (qdrant_collection_name (cfg env)) query_embedding top_k
            score_threshold of
       Inl e \<Rightarrow> (Inl e, w)
     | Inr results \<Rightarrow> (Inr (map chunk_of_point results), w))"

section \<open>Answer generator (\<open>services/llm.py\<close>)\<close>

definition nl :: string where
  "nl = [CHR 0x0A]"

definition dq :: string where
  "dq = [CHR 0x22]"

fun join_str :: "string \<Rightarrow> string list \<Rightarrow> string" where
  "join_str sep [] = []"
| "join_str sep [x] = x"
| "join_str sep (x # y # ys) = x @ sep @ join_str sep (y # ys)"

definition build_system_prompt :: "chunk list \<Rightarrow> string" where
  "build_system_prompt retrieved_chunks =
     (let context_text = join_str (nl @ nl)
            (map (\<lambda>chunk. ''[Source: '' @ title chunk @ '' - '' @ file_path chunk @ '']'' @ nl
                            @ chunk_text chunk) retrieved_chunks)
      in ''You are a helpful AI assistant for the '' @ dq
           @ ''Physical AI & Humanoid Robotics'' @ dq @ '' textbook.'' @ nl @ nl
         @ ''Your role is to answer questions based ONLY on the provided book content. ''
           @ ''Follow these guidelines:'' @ nl @ nl
         @ ''1. GROUNDING: Base all answers strictly on the provided context below. ''
           @ ''Do not use external knowledge.'' @ nl
         @ ''2. CITATIONS: Reference specific sources when making claims (e.g., '' @ dq
           @ ''According to the ROS2 chapter...'' @ dq @ '').'' @ nl
         @ ''3. SCOPE: If the question is outside the book's scope, politely state: '' @ dq
           @ ''I don't have information about that in the documentation. ''
           @ ''I can only answer questions about Physical AI, robotics, ROS2, ''
           @ ''and related topics covered in this book.'' @ dq @ nl
         @ ''4. CLARITY: Explain technical concepts clearly, ''
           @ ''suitable for students learning robotics.'' @ nl
         @ ''5. HONESTY: If the context doesn't contain enough information ''
           @ ''to answer fully, admit it.'' @ nl @ nl
         @ ''CONTEXT FROM BOOK:'' @ nl
         @ context_text @ nl @ nl
         @ ''Answer the user's question based on the above context.'')"

text \<open>
  The slice \<open>xs[start:]\<close> of Python: a negative \<open>start\<close> counts from the end and is
  clipped at the beginning of the list; a \<open>start\<close> beyond the end gives the empty list.
\<close>

definition py_slice_from :: "'a list \<Rightarrow> int \<Rightarrow> 'a list" where
  "py_slice_from xs start =
     (if start < 0 then drop (nat (max 0 (int (length xs) + start))) xs
      else drop (nat start) xs)"

text \<open>\<open>if selected_text:\<close> holds for a string that is neither \<open>None\<close> nor empty.\<close>

definition build_conversation_history ::
  "settings \<Rightarrow> history_entry list \<Rightarrow> string \<Rightarrow> string option \<Rightarrow> gemini_content list" where
  "build_conversation_history st conversation_messages current_query sel =
     map (\<lambda>msg. \<lparr> c_role = h_role msg, c_parts = [h_content msg] \<rparr>)
         (py_slice_from conversation_messages (- max_conversation_context st))
     @ (case sel of
          Some t \<Rightarrow>
            if t \<noteq> []
            then [\<lparr> c_role = ''user'',
                    c_parts = [''Selected text from page: '' @ dq @ t @ dq @ nl @ nl
                               @ ''Question: '' @ current_query] \<rparr>]
            else [\<lparr> c_role = ''user'', c_parts = [current_query] \<rparr>]
        | None \<Rightarrow> [\<lparr> c_role = ''user'', c_parts = [current_query] \<rparr>])"

text \<open>
  \<open>generate_response\<close>: one call of \<open>client.models.generate_content\<close>, logged. When
  \<open>response.text\<close> is \<open>None\<close>, \<open>len(answer)\<close> raises a \<open>TypeError\<close>.
\<close>

definition generate_response ::
  "env \<Rightarrow> string \<Rightarrow> chunk list \<Rightarrow> history_entry list \<Rightarrow> string option \<Rightarrow> string io" where
  "generate_response env query retrieved_chunks conversation_history sel = (\<lambda>w.
     let req = \<lparr> l_model = gemini_chat_model (cfg env),
                 l_contents = build_conversation_history (cfg env) conversation_history query sel,
                 system_instruction = build_system_prompt retrieved_chunks,
                 temperature = 0.7,
                 max_output_tokens = 500 \<rparr>;
         w' = w\<lparr>llm_log := llm_log w @ [req]\<rparr>
     in case generate_content env req of
          Inl e \<Rightarrow> (Inl e, w')
        | Inr None \<Rightarrow> (Inl TypeError, w')
        | Inr (Some answer) \<Rightarrow> (Inr answer, w'))"

section \<open>Orchestrator (\<open>services/rag_service.py\<close>)\<close>

definition refusal_message :: string where
  "refusal_message =
     ''I don't have information about that in the documentation. ''
     @ ''I can only answer questions about Physical AI, robotics, ROS2, ''
     @ ''and related topics covered in this book.''"

text \<open>
  \<open>seen_files\<close> is a dict: an association list in insertion order. Assigning to a key
  that is present replaces its value in place; a new key goes to the end.
\<close>

fun dict_set :: "'k \<Rightarrow> 'v \<Rightarrow> ('k \<times> 'v) list \<Rightarrow> ('k \<times> 'v) list" where
  "dict_set k v [] = [(k, v)]"
| "dict_set k v ((k', v') # kvs) =
     (if k' = k then (k, v) # kvs else (k', v') # dict_set k v kvs)"

text \<open>The body of the loop over \<open>retrieved_chunks\<close>.\<close>

definition keep_best :: "(string \<times> chunk) list \<Rightarrow> chunk \<Rightarrow> (string \<times> chunk) list" where
  "keep_best seen_files c =
     (case map_of seen_files (file_path c) of
        None \<Rightarrow> dict_set (file_path c) c seen_files
      | Some old \<Rightarrow>
          if relevance_score c > relevance_score old
          then dict_set (file_path c) c seen_files
          else seen_files)"

definition dedupe :: "chunk list \<Rightarrow> (string \<times> chunk) list" where
  "dedupe retrieved_chunks = foldl keep_best [] retrieved_chunks"

text \<open>The constructor of \<open>Source\<close> validates the declared field constraints:
  \<open>relevance_score\<close> within \<open>[0, 1]\<close> and \<open>excerpt\<close> of at most 500 characters.\<close>

definition Source :: "string \<Rightarrow> string \<Rightarrow> real \<Rightarrow> string \<Rightarrow> error + source" where
  "Source t fp sc ex =
     (if 0 \<le> sc \<and> sc \<le> 1 \<and> length ex \<le> 500
      then Inr \<lparr> src_title = t, src_file_path = fp, src_relevance_score = sc, excerpt = ex \<rparr>
      else Inl ValidationError)"

text \<open>The list comprehension over \<open>seen_files.values()\<close>: the first constructor that
  raises ends it.\<close>

fun sources_of :: "chunk list \<Rightarrow> error + source list" where
  "sources_of [] = Inr []"
| "sources_of (c # cs) =
     (case Source (title c) (file_path c) (relevance_score c) (take 500 (chunk_text c)) of
        Inl e \<Rightarrow> Inl e
      | Inr s \<Rightarrow> (case sources_of cs of Inl e \<Rightarrow> Inl e | Inr ss \<Rightarrow> Inr (s # ss)))"

text \<open>\<open>sources.sort(key=..., reverse=True)\<close>: Python reverses the list, sorts it with
  its stable sort and reverses it again.\<close>

definition sort_by_score_desc :: "source list \<Rightarrow> source list" where
  "sort_by_score_desc sources = rev (sort_key src_relevance_score (rev sources))"

definition format_sources :: "chunk list \<Rightarrow> error + source list" where
  "format_sources retrieved_chunks =
     (case sources_of (map snd (dedupe retrieved_chunks)) of
        Inl e \<Rightarrow> Inl e
      | Inr sources \<Rightarrow> Inr (sort_by_score_desc sources))"

definition context_metadata_of :: "chunk list \<Rightarrow> context_metadata" where
  "context_metadata_of retrieved_chunks =
     \<lparr> cm_chunks = map (\<lambda>c. \<lparr> cs_title = title c,
                               cs_file_path = file_path c,
                               cs_relevance_score = relevance_score c \<rparr>) retrieved_chunks,
       retrieval_count = length retrieved_chunks \<rparr>"

text \<open>Step 1 of \<open>process_query\<close>: create a session, or take the given one as it is.\<close>

definition resolve_session :: "env \<Rightarrow> uuid option \<Rightarrow> uuid io" where
  "resolve_session env sid_opt =
     (case sid_opt of None \<Rightarrow> create_session env | Some sid \<Rightarrow> return_io sid)"

text \<open>Steps 5 to 7: the refusal, or the generated answer with its sources.\<close>

definition answer_with_sources ::
  "env \<Rightarrow> string \<Rightarrow> chunk list \<Rightarrow> history_entry list \<Rightarrow> string option \<Rightarrow>
   (string \<times> source list) io" where
  "answer_with_sources env query retrieved_chunks conversation_history sel =
     (if retrieved_chunks = [] then return_io (refusal_message, [])
      else bind_io (generate_response env query retrieved_chunks conversation_history sel)
             (\<lambda>response.
           bind_io (lift_io (format_sources retrieved_chunks))
             (\<lambda>sources. return_io (response, sources))))"

text \<open>Steps 8 and 9: the two saves, then the result.\<close>

definition persist_turn ::
  "env \<Rightarrow> uuid \<Rightarrow> string \<Rightarrow> string option \<Rightarrow> chunk list \<Rightarrow> string \<Rightarrow> source list \<Rightarrow>
   (string \<times> source list \<times> uuid) io" where
  "persist_turn env sid query sel retrieved_chunks response sources =
     bind_io (save_message env sid ''user'' query sel None)
       (\<lambda>_.
     bind_io (save_message env sid ''assistant'' response None
                (Some (context_metadata_of retrieved_chunks)))
       (\<lambda>_. return_io (response, sources, sid)))"

definition process_query ::
  "env \<Rightarrow> string \<Rightarrow> uuid option \<Rightarrow> string option \<Rightarrow> (string \<times> source list \<times> uuid) io" where
  "process_query env query sid_opt sel =
     bind_io (resolve_session env sid_opt)
       (\<lambda>sid.
     bind_io (get_conversation_history env sid)
       (\<lambda>conversation_history.
     bind_io (generate_embedding env query)
       (\<lambda>query_embedding.
     bind_io (search env query_embedding (top_k_results (cfg env))
                (similarity_threshold (cfg env)))
       (\<lambda>retrieved_chunks.
     bind_io (answer_with_sources env query retrieved_chunks conversation_history sel)
       (\<lambda>(response, sources).
     persist_turn env sid query sel retrieved_chunks response sources)))))"

text \<open>Steps 1 to 7 of \<open>process_query\<close>, everything before the first save: the result
  is the session, the retrieved chunks, the answer and the sources.\<close>

definition retrieve_and_answer ::
  "env \<Rightarrow> string \<Rightarrow> uuid option \<Rightarrow> string option \<Rightarrow>
   (uuid \<times> chunk list \<times> string \<times> source list) io" where
  "retrieve_and_answer env query sid_opt sel =
     bind_io (resolve_session env sid_opt)
       (\<lambda>sid.
     bind_io (get_conversation_history env sid)
       (\<lambda>conversation_history.
     bind_io (generate_embedding env query)
       (\<lambda>query_embedding.
     bind_io (search env query_embedding (top_k_results (cfg env))
                (similarity_threshold (cfg env)))
       (\<lambda>retrieved_chunks.
     bind_io (answer_with_sources env query retrieved_chunks conversation_history sel)
       (\<lambda>(response, sources).
     return_io (sid, retrieved_chunks, response, sources))))))"

section \<open>Predicates of the proofs\<close>

text \<open>Chunk \<open>c\<close> is one of \<open>cs\<close>, has file path \<open>k\<close>, and no chunk of \<open>cs\<close> with that
  file path has a higher score.\<close>

definition best_of :: "chunk list \<Rightarrow> string \<Rightarrow> chunk \<Rightarrow> bool" where
  "best_of cs k c \<longleftrightarrow> c \<in> set cs \<and> file_path c = k
     \<and> (\<forall>c' \<in> set cs. file_path c' = k \<longrightarrow> relevance_score c' \<le> relevance_score c)"

text \<open>Referential integrity: every stored message belongs to a stored session.\<close>

definition messages_reference_sessions :: "world \<Rightarrow> bool" where
  "messages_reference_sessions w \<longleftrightarrow> session_id ` set (chat_messages w) \<subseteq> session_ids w"

section \<open>Example data\<close>

text \<open>Three search results: two chunks of one file and one chunk of another.\<close>

definition example_points :: "scored_point list" where
  "example_points =
     [\<lparr> sp_payload = \<lparr> p_title = Some ''ROS2 Basics'', p_file_path = Some ''ros2/intro.md'',
                       p_chunk_text = Some ''ROS2 is a set of software libraries.'',
                       p_chunk_index = Some 0, p_total_chunks = Some 2 \<rparr>,
        sp_score = 0.81 \<rparr>,
      \<lparr> sp_payload = \<lparr> p_title = Some ''Nodes'', p_file_path = Some ''ros2/nodes.md'',
                       p_chunk_text = Some ''A node is a process that computes.'',
                       p_chunk_index = Some 0, p_total_chunks = Some 1 \<rparr>,
        sp_score = 0.70 \<rparr>,
      \<lparr> sp_payload = \<lparr> p_title = Some ''ROS2 Basics'', p_file_path = Some ''ros2/intro.md'',
                       p_chunk_text = Some ''It is used to build robot applications.'',
                       p_chunk_index = Some 1, p_total_chunks = Some 2 \<rparr>,
        sp_score = 0.65 \<rparr>]"

text \<open>An environment in which every service answers, and a store with one session.\<close>

definition example_env :: env where
  "example_env =
     \<lparr> cfg = default_settings,
       embed_content = (\<lambda>req. Inr [[1, 0]]),
       qdrant_search = (\<lambda>coll v k t. Inr example_points),
       generate_content = (\<lambda>req. Inr (Some ''ROS2 is a set of software libraries.'')),
       db_down = (\<lambda>n. False),
       uuid4 = (\<lambda>n. 100 + n),
       utcnow = (\<lambda>n. 1000 + n) \<rparr>"

definition example_world :: world where
  "example_world =
     \<lparr> chat_sessions = [\<lparr> s_session_id = 7, s_created_at = 1, last_activity_at = 1 \<rparr>],
       chat_messages = [],
       db_txn = 0, uuid_calls = 0, clock_reads = 0,
       embed_log = [], llm_log = [] \<rparr>"

text \<open>Three stored messages, two of session 7, not in the order of their timestamps.\<close>

definition example_messages :: "message_row list" where
  "example_messages =
     [\<lparr> message_id = 1, session_id = 7, role = ''user'', content = ''What is ROS2?'',
        selected_text = None, context_used = None, created_at = 30 \<rparr>,
      \<lparr> message_id = 2, session_id = 8, role = ''user'', content = ''Hello'',
        selected_text = None, context_used = None, created_at = 12 \<rparr>,
      \<lparr> message_id = 3, session_id = 7, role = ''assistant'', content = ''A middleware.'',
        selected_text = None, context_used = None, created_at = 20 \<rparr>]"

text \<open>
  Three search results of which two lack a file path; the first also lacks a title, a
  chunk index and a chunk count, the last a chunk text.
\<close>

definition example_bare_points :: "scored_point list" where
  "example_bare_points =
     [\<lparr> sp_payload = \<lparr> p_title = None, p_file_path = None,
                       p_chunk_text = Some ''First orphan text.'',
                       p_chunk_index = None, p_total_chunks = None \<rparr>,
        sp_score = 0.9 \<rparr>,
      \<lparr> sp_payload = \<lparr> p_title = Some ''Nodes'', p_file_path = Some ''ros2/nodes.md'',
                       p_chunk_text = Some ''A node is a process that computes.'',
                       p_chunk_index = Some 0, p_total_chunks = Some 1 \<rparr>,
        sp_score = 0.8 \<rparr>,
      \<lparr> sp_payload = \<lparr> p_title = Some ''Other'', p_file_path = None,
                       p_chunk_text = None,
                       p_chunk_index = Some 3, p_total_chunks = Some 4 \<rparr>,
        sp_score = 0.7 \<rparr>]"

section \<open>Sequencing\<close>

lemma bind_ioE:
  assumes "bind_io m f w = (r, w')"
  obtains (fail) e where "m w = (Inl e, w')" "r = Inl e"
        | (ok) x w1 where "m w = (Inr x, w1)" "f x w1 = (r, w')"
  using assms unfolding bind_io_def by (auto split: prod.splits sum.splits)

lemma bind_io_assoc:
  "bind_io (bind_io m f) g = bind_io m (\<lambda>x. bind_io (f x) g)"
  by (auto simp: bind_io_def fun_eq_iff split: prod.splits sum.splits)

lemma bind_io_return: "bind_io (return_io x) f = f x"
  by (simp add: bind_io_def return_io_def)

text \<open>
  \<open>process_query\<close> is \<open>retrieve_and_answer\<close> followed by the two saves.
\<close>

lemma process_query_split:
  "process_query env query sid_opt sel =
     bind_io (retrieve_and_answer env query sid_opt sel)
       (\<lambda>(sid, retrieved_chunks, response, sources).
          persist_turn env sid query sel retrieved_chunks response sources)"
  unfolding process_query_def retrieve_and_answer_def
  by (simp add: bind_io_assoc bind_io_return split_def)

section \<open>What each operation does to the state\<close>

text \<open>
  A role that the check constraint accepts is stored as it is.
\<close>

lemma varchar20_known_role:
  assumes "varchar20 r = Some s" and "s = ''user'' \<or> s = ''assistant''"
  shows "s = r"
proof (cases "length r \<le> 20")
  case True
  with assms(1) show ?thesis by (simp add: varchar20_def)
next
  case False
  with assms(1) have "length s = 20"
    by (auto simp: varchar20_def split: if_splits)
  with assms(2) show ?thesis by auto
qed

text \<open>
  What one \<open>save_message\<close> does to the state, whatever its outcome.
\<close>

lemma save_message_effect:
  assumes "save_message env sid r c sel ctx w = (res, w')"
  shows "chat_sessions w' = chat_sessions w"
    and "llm_log w' = llm_log w"
    and "embed_log w' = embed_log w"
    and "db_txn w' = db_txn w + 1"
    and "isl res \<Longrightarrow> chat_messages w' = chat_messages w"
    and "\<not> isl res \<Longrightarrow> chat_messages w' = chat_messages w @
           [\<lparr> message_id = projr res, session_id = sid, role = r, content = c,
              selected_text = sel, context_used = ctx,
              created_at = utcnow env (clock_reads w) \<rparr>]"
    and "\<not> isl res \<Longrightarrow> sid \<in> session_ids w"
  using assms
  unfolding save_message_def new_message_row_def commit_message_def bind_io_def return_io_def
  by (auto simp: Let_def session_ids_def message_ids_def dest: varchar20_known_role
      split: if_splits option.splits)

lemma save_message_Inr:
  assumes "save_message env sid r c sel ctx w = (Inr mid, w')"
  shows "chat_messages w' = chat_messages w @
           [\<lparr> message_id = mid, session_id = sid, role = r, content = c,
              selected_text = sel, context_used = ctx,
              created_at = utcnow env (clock_reads w) \<rparr>]"
    and "sid \<in> session_ids w" and "chat_sessions w' = chat_sessions w"
  using save_message_effect(6,7,1) [OF assms] by simp_all

lemma save_message_Inl:
  assumes "save_message env sid r c sel ctx w = (Inl e, w')"
  shows "chat_messages w' = chat_messages w" and "chat_sessions w' = chat_sessions w"
  using save_message_effect(5,1) [OF assms] by simp_all

lemma save_message_log_kept:
  "save_message env sid r c sel ctx w = (res, w') \<Longrightarrow> llm_log w' = llm_log w"
  by (rule save_message_effect(2))

lemma create_session_effect:
  assumes "create_session env w = (res, w')"
  shows "chat_messages w' = chat_messages w"
    and "llm_log w' = llm_log w"
    and "embed_log w' = embed_log w"
    and "\<not> isl res \<Longrightarrow> projr res \<in> session_ids w'"
    and "set (chat_sessions w) \<subseteq> set (chat_sessions w')"
  using assms
  unfolding create_session_def new_session_row_def commit_session_def bind_io_def return_io_def
  by (auto simp: Let_def session_ids_def split: if_splits)

lemma resolve_session_effect:
  assumes "resolve_session env sid_opt w = (res, w')"
  shows "chat_messages w' = chat_messages w"
    and "llm_log w' = llm_log w"
    and "embed_log w' = embed_log w"
    and "set (chat_sessions w) \<subseteq> set (chat_sessions w')"
    and "sid_opt = None \<Longrightarrow> \<not> isl res \<Longrightarrow> projr res \<in> session_ids w'"
    and "sid_opt = Some sid \<Longrightarrow> res = Inr sid \<and> w' = w"
  using assms create_session_effect [of env w res w']
  by (auto simp: resolve_session_def return_io_def split: option.splits)

lemma get_conversation_history_effect:
  assumes "get_conversation_history env sid w = (res, w')"
  shows "w' = w\<lparr>db_txn := db_txn w + 1\<rparr>"
  using assms by (auto simp: get_conversation_history_def Let_def split: if_splits)

lemma generate_embedding_effect:
  assumes "generate_embedding env query w = (res, w')"
  shows "w' = w\<lparr>embed_log := embed_log w @ [query_request env query]\<rparr>"
    and "res = Inr v \<Longrightarrow> \<exists>vs. embed_content env (query_request env query) = Inr (v # vs)"
  using assms
  by (auto simp: generate_embedding_def query_request_def Let_def split: sum.splits list.splits)

lemma generate_embedding_run:
  assumes "embed_content env (query_request env query) = Inr (v # vs)"
  shows "generate_embedding env query w =
           (Inr v, w\<lparr>embed_log := embed_log w @ [query_request env query]\<rparr>)"
  using assms by (simp add: generate_embedding_def query_request_def Let_def)

lemma search_effect:
  assumes "search env v k t w = (res, w')"
  shows "w' = w"
    and "res = Inr chunks \<Longrightarrow>
           \<exists>points. qdrant_search env (qdrant_collection_name (cfg env)) v k t = Inr points
                    \<and> chunks = map chunk_of_point points"
  using assms by (auto simp: search_def split: sum.splits)

lemma search_run:
  assumes "qdrant_search env (qdrant_collection_name (cfg env)) v k t = Inr points"
  shows "search env v k t w = (Inr (map chunk_of_point points), w)"
  using assms by (simp add: search_def)

lemma generate_response_effect:
  assumes "generate_response env query chunks hist sel w = (res, w')"
  shows "chat_messages w' = chat_messages w" and "chat_sessions w' = chat_sessions w"
    and "length (llm_log w') = length (llm_log w) + 1"
  using assms
  by (auto simp: generate_response_def Let_def split: sum.splits option.splits)

lemma answer_with_sources_effect:
  assumes "answer_with_sources env query chunks hist sel w = (res, w')"
  shows "chat_messages w' = chat_messages w" and "chat_sessions w' = chat_sessions w"
    and "chunks = [] \<Longrightarrow> res = Inr (refusal_message, []) \<and> w' = w"
    and "chunks \<noteq> [] \<Longrightarrow> res = Inr (response, sources) \<Longrightarrow> format_sources chunks = Inr sources"
proof -
  show "chunks = [] \<Longrightarrow> res = Inr (refusal_message, []) \<and> w' = w"
    using assms by (auto simp: answer_with_sources_def return_io_def)
  show "chat_messages w' = chat_messages w"
    using assms generate_response_effect(1)
    by (fastforce simp: answer_with_sources_def return_io_def lift_io_def
        elim!: bind_ioE split: if_splits)
  show "chat_sessions w' = chat_sessions w"
    using assms generate_response_effect(2)
    by (fastforce simp: answer_with_sources_def return_io_def lift_io_def
        elim!: bind_ioE split: if_splits)
  show "chunks \<noteq> [] \<Longrightarrow> res = Inr (response, sources) \<Longrightarrow> format_sources chunks = Inr sources"
    using assms
    by (auto simp: answer_with_sources_def return_io_def lift_io_def elim!: bind_ioE)
qed

section \<open>The pipeline, step by step\<close>

lemma retrieve_and_answer_messages:
  assumes "retrieve_and_answer env q s sel w = (res, w1)"
  shows "chat_messages w1 = chat_messages w"
  using assms unfolding retrieve_and_answer_def
  apply (elim bind_ioE)
  apply (auto simp: return_io_def split: prod.splits
       dest!: resolve_session_effect(1) get_conversation_history_effect generate_embedding_effect(1)
              search_effect(1) answer_with_sources_effect(1))
  done

lemma retrieve_and_answer_sessions_any:
  assumes "retrieve_and_answer env query sid_opt sel w = (res, w1)"
  shows "set (chat_sessions w) \<subseteq> set (chat_sessions w1)"
  using assms unfolding retrieve_and_answer_def
  apply (elim bind_ioE)
  apply (auto simp: return_io_def split: prod.splits
       dest!: resolve_session_effect(4) get_conversation_history_effect generate_embedding_effect(1)
              search_effect(1) answer_with_sources_effect(2))
  done

lemma retrieve_and_answer_Inr:
  assumes "retrieve_and_answer env q s sel w = (Inr (sid, chunks, resp, srcs), w1)"
  obtains w2 hist w3 v w4 where
    "resolve_session env s w = (Inr sid, w2)"
    "get_conversation_history env sid w2 = (Inr hist, w3)"
    "generate_embedding env q w3 = (Inr v, w4)"
    "search env v (top_k_results (cfg env)) (similarity_threshold (cfg env)) w4 = (Inr chunks, w4)"
    "answer_with_sources env q chunks hist sel w4 = (Inr (resp, srcs), w1)"
  using assms unfolding retrieve_and_answer_def
  apply (elim bind_ioE)
  apply (auto simp: return_io_def split: prod.splits)
  apply (frule search_effect(1))
  apply auto
  done

lemma retrieve_and_answer_points:
  assumes "retrieve_and_answer env query sid_opt sel w = (Inr (sid, chunks, response, sources), w1)"
  obtains v vs points where
    "embed_content env (query_request env query) = Inr (v # vs)"
    "qdrant_search env (qdrant_collection_name (cfg env)) v (top_k_results (cfg env))
       (similarity_threshold (cfg env)) = Inr points"
    "chunks = map chunk_of_point points"
    "chunks = [] \<longrightarrow> response = refusal_message \<and> sources = []"
    "chunks \<noteq> [] \<longrightarrow> format_sources chunks = Inr sources"
proof -
  from assms obtain w2 hist w3 v w4 where
    emb: "generate_embedding env query w3 = (Inr v, w4)"
    and srch: "search env v (top_k_results (cfg env)) (similarity_threshold (cfg env)) w4
                 = (Inr chunks, w4)"
    and ans: "answer_with_sources env query chunks hist sel w4 = (Inr (response, sources), w1)"
    by (rule retrieve_and_answer_Inr)
  from generate_embedding_effect(2) [OF emb] obtain vs where
    1: "embed_content env (query_request env query) = Inr (v # vs)"
    by auto
  from search_effect(2) [OF srch] obtain points where
    2: "qdrant_search env (qdrant_collection_name (cfg env)) v (top_k_results (cfg env))
          (similarity_threshold (cfg env)) = Inr points"
    and 3: "chunks = map chunk_of_point points"
    by auto
  have 4: "chunks = [] \<longrightarrow> response = refusal_message \<and> sources = []"
    using answer_with_sources_effect(3) [OF ans] by simp
  have 5: "chunks \<noteq> [] \<longrightarrow> format_sources chunks = Inr sources"
    using answer_with_sources_effect(4) [OF ans] by simp
  from 1 2 3 4 5 show ?thesis by (rule that)
qed

lemma retrieve_and_answer_sessions:
  assumes "retrieve_and_answer env query sid_opt sel w = (Inr (sid, chunks, response, sources), w1)"
  shows "set (chat_sessions w) \<subseteq> set (chat_sessions w1)"
    and "sid_opt = None \<Longrightarrow> sid \<in> session_ids w1"
proof -
  from assms obtain w2 hist w3 v w4 where
    rs: "resolve_session env sid_opt w = (Inr sid, w2)"
    and gh: "get_conversation_history env sid w2 = (Inr hist, w3)"
    and ge: "generate_embedding env query w3 = (Inr v, w4)"
    and ans: "answer_with_sources env query chunks hist sel w4 = (Inr (response, sources), w1)"
    by (rule retrieve_and_answer_Inr)
  have same: "chat_sessions w1 = chat_sessions w2"
    using get_conversation_history_effect [OF gh] generate_embedding_effect(1) [OF ge]
      answer_with_sources_effect(2) [OF ans]
    by simp
  show "set (chat_sessions w) \<subseteq> set (chat_sessions w1)"
    using resolve_session_effect(4) [OF rs] same by simp
  show "sid \<in> session_ids w1" if "sid_opt = None"
    using resolve_session_effect(5) [OF rs that] same by (simp add: session_ids_def)
qed

lemma persist_turn_cases:
  assumes "persist_turn env sid query sel chunks response sources w1 = (r, w')"
  obtains (user_failed) e where "r = Inl e" "chat_messages w' = chat_messages w1"
      "save_message env sid ''user'' query sel None w1 = (Inl e, w')"
    | (assistant_failed) mid w2 e where "r = Inl e"
      "save_message env sid ''user'' query sel None w1 = (Inr mid, w2)"
      "save_message env sid ''assistant'' response None (Some (context_metadata_of chunks)) w2
         = (Inl e, w')"
    | (saved) mid w2 mid' where "r = Inr (response, sources, sid)"
      "save_message env sid ''user'' query sel None w1 = (Inr mid, w2)"
      "save_message env sid ''assistant'' response None (Some (context_metadata_of chunks)) w2
         = (Inr mid', w')"
proof -
  from assms show ?thesis
    unfolding persist_turn_def
  proof (cases rule: bind_ioE)
    case (fail e)
    with save_message_effect(5) [OF fail(1)] show ?thesis
      by (intro user_failed [of e]) auto
  next
    case (ok mid w2)
    from ok(2) show ?thesis
    proof (cases rule: bind_ioE)
      case (fail e)
      with ok(1) show ?thesis by (intro assistant_failed)
    next
      case inner: (ok mid' w3)
      then have "r = Inr (response, sources, sid)" "w3 = w'"
        by (auto simp: return_io_def)
      with ok(1) inner(1) show ?thesis by (intro saved) auto
    qed
  qed
qed

lemma persist_turn_llm_log:
  assumes "persist_turn env sid query sel chunks response sources w1 = (r, w')"
  shows "llm_log w' = llm_log w1"
  using assms
  by (cases rule: persist_turn_cases) (auto dest!: save_message_log_kept)

lemma process_query_Inr:
  assumes "process_query env query sid_opt sel w = (Inr (response, sources, sid), w')"
  obtains chunks w1 mid w2 mid' where
    "retrieve_and_answer env query sid_opt sel w = (Inr (sid, chunks, response, sources), w1)"
    "save_message env sid ''user'' query sel None w1 = (Inr mid, w2)"
    "save_message env sid ''assistant'' response None (Some (context_metadata_of chunks)) w2
       = (Inr mid', w')"
proof -
  from assms have "bind_io (retrieve_and_answer env query sid_opt sel)
       (\<lambda>(sid, retrieved_chunks, response, sources).
          persist_turn env sid query sel retrieved_chunks response sources) w
       = (Inr (response, sources, sid), w')"
    by (simp only: process_query_split)
  then show ?thesis
  proof (cases rule: bind_ioE)
    case (fail e)
    then show ?thesis by simp
  next
    case (ok x w1)
    obtain sid0 chunks resp0 srcs0 where x: "x = (sid0, chunks, resp0, srcs0)"
      by (cases x) auto
    from ok(2) x have p: "persist_turn env sid0 query sel chunks resp0 srcs0 w1
                            = (Inr (response, sources, sid), w')"
      by simp
    from p show ?thesis
    proof (cases rule: persist_turn_cases)
      case (saved mid w2 mid')
      with ok(1) x show ?thesis by (intro that [of chunks w1 mid w2 mid']) auto
    qed auto
  qed
qed

text \<open>
  The definitions that a run of the pipeline on the example data unfolds.
\<close>

lemmas run_defs =
  process_query_def retrieve_and_answer_def resolve_session_def create_session_def
  new_session_row_def commit_session_def get_conversation_history_def select_messages_def
  generate_embedding_def search_def answer_with_sources_def generate_response_def
  persist_turn_def save_message_def new_message_row_def commit_message_def
  row_has_nul_def has_nul_def context_has_nul_def varchar20_def context_metadata_of_def
  bind_io_def return_io_def lift_io_def session_ids_def message_ids_def Let_def
  example_env_def example_world_def default_settings_def query_request_def

lemma refusal_length: "length refusal_message = 161"
  by (simp add: refusal_message_def)

lemma refusal_nul_free: "CHR 0x00 \<notin> set refusal_message"
  by (simp add: refusal_message_def)

section \<open>The refusal branch\<close>

lemma retrieve_and_answer_refusal:
  assumes emb: "embed_content env (query_request env query) = Inr (v # vs)"
    and srch: "qdrant_search env (qdrant_collection_name (cfg env)) v (top_k_results (cfg env))
                 (similarity_threshold (cfg env)) = Inr []"
    and run: "retrieve_and_answer env query sid_opt sel w = (r, w1)"
  shows "llm_log w1 = llm_log w"
    and "r = Inr (sid, chunks, response, sources)
           \<Longrightarrow> chunks = [] \<and> response = refusal_message \<and> sources = []"
proof -
  from run have "llm_log w1 = llm_log w
    \<and> (r = Inr (sid, chunks, response, sources)
         \<longrightarrow> chunks = [] \<and> response = refusal_message \<and> sources = [])"
    unfolding retrieve_and_answer_def
  proof (cases rule: bind_ioE)
    case (fail e)
    with resolve_session_effect(2) [OF fail(1)] show ?thesis by simp
  next
    case (ok sid0 w2)
    note s1 = resolve_session_effect(2) [OF ok(1)]
    from ok(2) show ?thesis
    proof (cases rule: bind_ioE)
      case (fail e)
      with get_conversation_history_effect [OF fail(1)] s1 show ?thesis by simp
    next
      case h: (ok hist w3)
      note s2 = get_conversation_history_effect [OF h(1)]
      from h(2) show ?thesis
        using s1 s2
        by (auto simp: generate_embedding_run [OF emb] search_run [OF srch] bind_io_def
            answer_with_sources_def return_io_def)
    qed
  qed
  then show "llm_log w1 = llm_log w"
    and "r = Inr (sid, chunks, response, sources)
           \<Longrightarrow> chunks = [] \<and> response = refusal_message \<and> sources = []"
    by blast+
qed

text \<open>
  Claim C1. When the embedding of the query is \<open>v\<close> and the vector search on \<open>v\<close> returns
  no point, \<open>process_query\<close> sends no request to the chat model, whatever its outcome (the
  log of \<open>generate_content\<close> requests is unchanged), and every result it returns is the
  refusal message with an empty source list. (It returns nothing when a later step, such
  as one of the two saves, raises an error.)
\<close>

theorem process_query_refusal:
  assumes emb: "embed_content env (query_request env query) = Inr (v # vs)"
    and srch: "qdrant_search env (qdrant_collection_name (cfg env)) v (top_k_results (cfg env))
                 (similarity_threshold (cfg env)) = Inr []"
    and run: "process_query env query sid_opt sel w = (r, w')"
  shows "llm_log w' = llm_log w
       \<and> (\<forall>response sources sid. r = Inr (response, sources, sid)
             \<longrightarrow> response = refusal_message \<and> sources = [])"
proof -
  from run have "bind_io (retrieve_and_answer env query sid_opt sel)
       (\<lambda>(sid, retrieved_chunks, response, sources).
          persist_turn env sid query sel retrieved_chunks response sources) w = (r, w')"
    by (simp only: process_query_split)
  then show ?thesis
  proof (cases rule: bind_ioE)
    case (fail e)
    with retrieve_and_answer_refusal(1) [OF emb srch fail(1)] show ?thesis by simp
  next
    case (ok x w1)
    obtain sid0 chunks resp0 srcs0 where x: "x = (sid0, chunks, resp0, srcs0)"
      by (cases x) auto
    from retrieve_and_answer_refusal [OF emb srch ok(1)] x
    have log: "llm_log w1 = llm_log w"
      and ref: "chunks = [] \<and> resp0 = refusal_message \<and> srcs0 = []"
      by simp_all
    from ok(2) x ref
    have p: "persist_turn env sid0 query sel [] refusal_message [] w1 = (r, w')"
      by simp
    from p have log': "llm_log w' = llm_log w1" by (rule persist_turn_llm_log)
    from p have "\<forall>response sources sid. r = Inr (response, sources, sid)
                   \<longrightarrow> response = refusal_message \<and> sources = []"
      by (cases rule: persist_turn_cases) auto
    with log log' show ?thesis by simp
  qed
qed

text \<open>
  A query without matches on a reachable store: the refusal is returned for the new
  session 100, and no request went to the chat model.
\<close>

theorem process_query_refusal_witness:
  "llm_log (snd (process_query (example_env\<lparr>qdrant_search := (\<lambda>coll v k t. Inr [])\<rparr>)
                   ''What is the GDP of France?'' None None example_world)) = llm_log example_world
   \<and> fst (process_query (example_env\<lparr>qdrant_search := (\<lambda>coll v k t. Inr [])\<rparr>)
                   ''What is the GDP of France?'' None None example_world)
       = Inr (refusal_message, [], 100)"
proof -
  let ?env = "example_env\<lparr>qdrant_search := (\<lambda>coll v k t. Inr [])\<rparr>"
  let ?run = "process_query ?env ''What is the GDP of France?'' None None example_world"
  have emb: "embed_content ?env (query_request ?env ''What is the GDP of France?'') = Inr ([1, 0] # [])"
    by (simp add: example_env_def)
  have srch: "qdrant_search ?env (qdrant_collection_name (cfg ?env)) [1, 0]
                (top_k_results (cfg ?env)) (similarity_threshold (cfg ?env)) = Inr []"
    by simp
  have run: "?run = (fst ?run, snd ?run)" by simp
  have res: "fst ?run = Inr (refusal_message, [], 100)"
    by (simp add: run_defs refusal_length refusal_nul_free)
  from process_query_refusal [OF emb srch run] res show ?thesis by simp
qed

section \<open>Source assembly\<close>

lemma map_of_dict_set: "map_of (dict_set k v kvs) = (map_of kvs)(k \<mapsto> v)"
  by (induction kvs) (auto simp: fun_eq_iff)

lemma keys_dict_set: "fst ` set (dict_set k v kvs) = insert k (fst ` set kvs)"
proof -
  have "fst ` set (dict_set k v kvs) = dom (map_of (dict_set k v kvs))"
    by (simp only: dom_map_of_conv_image_fst)
  also have "\<dots> = insert k (dom (map_of kvs))"
    by (simp add: map_of_dict_set)
  finally show ?thesis
    by (simp only: dom_map_of_conv_image_fst)
qed

lemma distinct_dict_set: "distinct (map fst kvs) \<Longrightarrow> distinct (map fst (dict_set k v kvs))"
  by (induction kvs) (auto simp: keys_dict_set)

lemma dedupe_snoc: "dedupe (cs @ [c]) = keep_best (dedupe cs) c"
  by (simp add: dedupe_def)

lemma best_of_snoc_other:
  "best_of cs k b \<Longrightarrow> file_path c \<noteq> k \<Longrightarrow> best_of (cs @ [c]) k b"
  by (auto simp: best_of_def)

lemma best_of_snoc_keep:
  "best_of cs k b \<Longrightarrow> \<not> relevance_score c > relevance_score b \<Longrightarrow> best_of (cs @ [c]) k b"
  by (auto simp: best_of_def)

lemma best_of_snoc_new:
  assumes "file_path c \<notin> file_path ` set cs"
  shows "best_of (cs @ [c]) (file_path c) c"
proof -
  have "file_path c' \<noteq> file_path c" if "c' \<in> set cs" for c'
    using assms that by (metis imageI)
  then show ?thesis by (auto simp: best_of_def)
qed

lemma best_of_snoc_better:
  "best_of cs (file_path c) old \<Longrightarrow> relevance_score c > relevance_score old
     \<Longrightarrow> best_of (cs @ [c]) (file_path c) c"
  by (fastforce simp: best_of_def)

text \<open>
  The invariant of the loop over \<open>retrieved_chunks\<close>: the keys of \<open>seen_files\<close> are
  distinct, they are the file paths met so far, and each key holds a best chunk of its file.
\<close>

lemma dedupe_inv:
  "distinct (map fst (dedupe cs))
   \<and> fst ` set (dedupe cs) = file_path ` set cs
   \<and> (\<forall>k b. map_of (dedupe cs) k = Some b \<longrightarrow> best_of cs k b)"
proof (induction cs rule: rev_induct)
  case Nil
  show ?case by (simp add: dedupe_def)
next
  case (snoc c cs)
  let ?seen = "dedupe cs"
  let ?upd = "dict_set (file_path c) c ?seen"
  from snoc have d: "distinct (map fst ?seen)"
    and keys: "fst ` set ?seen = file_path ` set cs"
    and best: "\<And>k b. map_of ?seen k = Some b \<Longrightarrow> best_of cs k b"
    by blast+
  have d_upd: "distinct (map fst ?upd)"
    using d by (rule distinct_dict_set)
  have keys_upd: "fst ` set ?upd = file_path ` set (cs @ [c])"
    using keys by (simp add: keys_dict_set)
  show ?case
  proof (cases "map_of ?seen (file_path c)")
    case None
    then have "file_path c \<notin> fst ` set ?seen"
      by (simp add: map_of_eq_None_iff)
    then have new: "file_path c \<notin> file_path ` set cs"
      using keys by simp
    have kb: "dedupe (cs @ [c]) = ?upd"
      using None by (simp add: dedupe_snoc keep_best_def)
    have "best_of (cs @ [c]) k b" if "map_of ?upd k = Some b" for k b
    proof (cases "k = file_path c")
      case True
      with that have "b = c" by (simp add: map_of_dict_set)
      with True new show ?thesis by (simp add: best_of_snoc_new)
    next
      case False
      with that have "map_of ?seen k = Some b" by (simp add: map_of_dict_set)
      then have "best_of cs k b" by (rule best)
      with False show ?thesis by (simp add: best_of_snoc_other)
    qed
    with d_upd keys_upd kb show ?thesis by simp
  next
    case (Some old)
    then have old: "best_of cs (file_path c) old" by (rule best)
    show ?thesis
    proof (cases "relevance_score c > relevance_score old")
      case True
      have kb: "dedupe (cs @ [c]) = ?upd"
        using Some True by (simp add: dedupe_snoc keep_best_def)
      have "best_of (cs @ [c]) k b" if "map_of ?upd k = Some b" for k b
      proof (cases "k = file_path c")
        case same: True
        with that have "b = c" by (simp add: map_of_dict_set)
        with same old True show ?thesis by (simp add: best_of_snoc_better)
      next
        case False
        with that have "map_of ?seen k = Some b" by (simp add: map_of_dict_set)
        then have "best_of cs k b" by (rule best)
        with False show ?thesis by (simp add: best_of_snoc_other)
      qed
      with d_upd keys_upd kb show ?thesis by simp
    next
      case False
      have kb: "dedupe (cs @ [c]) = ?seen"
        using Some False by (simp add: dedupe_snoc keep_best_def)
      have in_keys: "file_path c \<in> fst ` set ?seen"
        using Some by (metis map_of_eq_None_iff option.distinct(1))
      have keys': "fst ` set ?seen = file_path ` set (cs @ [c])"
        using keys in_keys by auto
      have "best_of (cs @ [c]) k b" if "map_of ?seen k = Some b" for k b
      proof (cases "k = file_path c")
        case True
        with that Some have "b = old" by simp
        with old False True show ?thesis by (simp add: best_of_snoc_keep)
      next
        case other: False
        from that have "best_of cs k b" by (rule best)
        with other show ?thesis by (simp add: best_of_snoc_other)
      qed
      with d keys' kb show ?thesis by simp
    qed
  qed
qed

lemma dedupe_values:
  assumes "c \<in> snd ` set (dedupe cs)"
  shows "best_of cs (file_path c) c"
proof -
  from assms obtain k where kc: "(k, c) \<in> set (dedupe cs)" by auto
  have "distinct (map fst (dedupe cs))" using dedupe_inv by blast
  with kc have m: "map_of (dedupe cs) k = Some c" by simp
  with dedupe_inv have b: "best_of cs k c" by blast
  then have "file_path c = k" by (simp add: best_of_def)
  with b show ?thesis by simp
qed

lemma dedupe_paths: "map file_path (map snd (dedupe cs)) = map fst (dedupe cs)"
proof -
  have "file_path (snd p) = fst p" if "p \<in> set (dedupe cs)" for p
  proof -
    have "snd p \<in> snd ` set (dedupe cs)" using that by simp
    then have b: "best_of cs (file_path (snd p)) (snd p)" by (rule dedupe_values)
    have "distinct (map fst (dedupe cs))" using dedupe_inv by blast
    with that have "map_of (dedupe cs) (fst p) = Some (snd p)" by simp
    with dedupe_inv have "best_of cs (fst p) (snd p)" by blast
    then show ?thesis by (simp add: best_of_def)
  qed
  then show ?thesis by simp
qed

lemma sources_of_Inr:
  "sources_of cs = Inr ss \<Longrightarrow>
     ss = map (\<lambda>c. \<lparr> src_title = title c, src_file_path = file_path c,
                      src_relevance_score = relevance_score c,
                      excerpt = take 500 (chunk_text c) \<rparr>) cs"
  by (induction cs arbitrary: ss) (auto simp: Source_def split: sum.splits if_splits)

lemma sort_by_score_desc_mset: "mset (sort_by_score_desc ss) = mset ss"
  by (simp add: sort_by_score_desc_def)

lemma sort_by_score_desc_set: "set (sort_by_score_desc ss) = set ss"
  by (simp add: sort_by_score_desc_def)

lemma sort_by_score_desc_sorted:
  "sorted_wrt (\<lambda>a b. src_relevance_score a \<ge> src_relevance_score b) (sort_by_score_desc ss)"
proof -
  have "sorted (map src_relevance_score (sort_key src_relevance_score (rev ss)))"
    by (rule sorted_sort_key)
  then have "sorted_wrt (\<lambda>a b. src_relevance_score a \<le> src_relevance_score b)
               (sort_key src_relevance_score (rev ss))"
    by (simp add: sorted_map)
  then show ?thesis
    by (simp add: sort_by_score_desc_def sorted_wrt_rev)
qed

lemma sort_by_score_desc_distinct:
  "distinct (map f ss) \<Longrightarrow> distinct (map f (sort_by_score_desc ss))"
proof -
  assume "distinct (map f ss)"
  moreover have "mset (map f (sort_by_score_desc ss)) = mset (map f ss)"
    by (simp add: sort_by_score_desc_def)
  ultimately show ?thesis
    by (metis mset_eq_imp_distinct_iff)
qed

lemma format_sources_props:
  assumes "format_sources chunks = Inr srcs"
  shows "distinct (map src_file_path srcs)
       \<and> src_file_path ` set srcs = file_path ` set chunks
       \<and> (\<forall>s \<in> set srcs. \<exists>c \<in> set chunks.
             s = \<lparr> src_title = title c, src_file_path = file_path c,
                   src_relevance_score = relevance_score c,
                   excerpt = take 500 (chunk_text c) \<rparr>
             \<and> (\<forall>c' \<in> set chunks. file_path c' = file_path c
                   \<longrightarrow> relevance_score c' \<le> relevance_score c))
       \<and> (\<forall>s \<in> set srcs. length (excerpt s) \<le> 500)
       \<and> sorted_wrt (\<lambda>a b. src_relevance_score a \<ge> src_relevance_score b) srcs"
proof -
  let ?mk = "\<lambda>c. \<lparr> src_title = title c, src_file_path = file_path c,
                    src_relevance_score = relevance_score c,
                    excerpt = take 500 (chunk_text c) \<rparr>"
  let ?kept = "map snd (dedupe chunks)"
  from assms obtain ss where ss: "sources_of ?kept = Inr ss"
    and srcs: "srcs = sort_by_score_desc ss"
    by (auto simp: format_sources_def split: sum.splits)
  from ss have ss_eq: "ss = map ?mk ?kept" by (rule sources_of_Inr)
  have paths: "map src_file_path ss = map fst (dedupe chunks)"
    using dedupe_paths [of chunks] by (simp add: ss_eq comp_def)
  have "distinct (map src_file_path ss)"
    using dedupe_inv [of chunks] by (simp only: paths)
  then have 1: "distinct (map src_file_path srcs)"
    unfolding srcs by (rule sort_by_score_desc_distinct)
  have "src_file_path ` set ss = file_path ` set chunks"
    using dedupe_inv [of chunks] paths by (metis set_map)
  then have 2: "src_file_path ` set srcs = file_path ` set chunks"
    by (simp add: srcs sort_by_score_desc_set)
  have 3: "\<exists>c \<in> set chunks. s = ?mk c
             \<and> (\<forall>c' \<in> set chunks. file_path c' = file_path c
                   \<longrightarrow> relevance_score c' \<le> relevance_score c)"
    if "s \<in> set srcs" for s
  proof -
    from that have "s \<in> set ss" by (simp add: srcs sort_by_score_desc_set)
    then obtain c where c: "c \<in> snd ` set (dedupe chunks)" and s: "s = ?mk c"
      by (auto simp: ss_eq)
    from c have "best_of chunks (file_path c) c" by (rule dedupe_values)
    with s show ?thesis unfolding best_of_def by blast
  qed
  have 4: "length (excerpt s) \<le> 500" if "s \<in> set srcs" for s
    using 3 [OF that] by auto
  have 5: "sorted_wrt (\<lambda>a b. src_relevance_score a \<ge> src_relevance_score b) srcs"
    unfolding srcs by (rule sort_by_score_desc_sorted)
  from 1 2 3 4 5 show ?thesis by blast
qed



section \<open>The write path of the conversation store\<close>

text \<open>
  A role outside \<open>{user, assistant}\<close> is not refused by \<open>save_message\<close> itself: on a
  reachable database with session 7, the INSERT of a \<open>system\<close> message is submitted (the
  transaction counter moves) and it is the check constraint \<open>chk_valid_role\<close> that
  refuses it, with the driver's \<open>IntegrityError\<close>, not with a \<open>ValidationError\<close>.
\<close>

theorem save_message_no_validation_counterexample:
  "fst (save_message example_env 7 ''system'' ''hi'' None None example_world)
     = Inl (IntegrityError ''chk_valid_role'')
   \<and> fst (save_message example_env 7 ''system'' ''hi'' None None example_world)
     \<noteq> Inl ValidationError
   \<and> db_txn (snd (save_message example_env 7 ''system'' ''hi'' None None example_world))
     \<noteq> db_txn example_world"
  by (simp add: save_message_def new_message_row_def commit_message_def bind_io_def
      return_io_def example_env_def example_world_def Let_def session_ids_def message_ids_def
      row_has_nul_def has_nul_def varchar20_def)

text \<open>
  Claim C3, as amended. For every call of \<open>save_message\<close> with a role outside
  \<open>{user, assistant}\<close> or a content whose length is outside \<open>[1, 10000]\<close>, the call
  fails and no row is written; \<open>save_message\<close> validates nothing itself: the INSERT is
  submitted to the database (one more transaction), and the error is the database's
  (a violated check constraint, a value it cannot store, or no connection).
\<close>

theorem save_message_invalid_rejected_by_database:
  assumes "\<not> (r = ''user'' \<or> r = ''assistant'') \<or> \<not> (1 \<le> length c \<and> length c \<le> 10000)"
  shows "\<exists>e w'. save_message env sid r c sel ctx w = (Inl e, w')
           \<and> e \<in> {OperationalError, DataError, IntegrityError ''chk_content_length'',
                    IntegrityError ''chk_valid_role''}
           \<and> chat_messages w' = chat_messages w
           \<and> db_txn w' = db_txn w + 1"
proof -
  let ?row = "\<lparr> message_id = uuid4 env (uuid_calls w), session_id = sid, role = r, content = c,
                selected_text = sel, context_used = ctx,
                created_at = utcnow env (clock_reads w) \<rparr>"
  let ?w1 = "w\<lparr>uuid_calls := uuid_calls w + 1, clock_reads := clock_reads w + 1\<rparr>"
  let ?w' = "?w1\<lparr>db_txn := db_txn ?w1 + 1\<rparr>"
  have refused: "\<not> (s = ''user'' \<or> s = ''assistant'')"
    if "varchar20 r = Some s" and "1 \<le> length c \<and> length c \<le> 10000" for s
    using that assms varchar20_known_role [of r s] by auto
  have "\<exists>e. commit_message env ?row ?w1 = (Inl e, ?w')
          \<and> e \<in> {OperationalError, DataError, IntegrityError ''chk_content_length'',
                   IntegrityError ''chk_valid_role''}"
    using refused
    by (cases "varchar20 r") (auto simp: commit_message_def Let_def)
  then obtain e where run: "commit_message env ?row ?w1 = (Inl e, ?w')"
    and e: "e \<in> {OperationalError, DataError, IntegrityError ''chk_content_length'',
                   IntegrityError ''chk_valid_role''}"
    by blast
  from run have "save_message env sid r c sel ctx w = (Inl e, ?w')"
    by (simp add: save_message_def new_message_row_def bind_io_def)
  with e show ?thesis by simp
qed

theorem save_message_invalid_rejected_by_database_witness:
  "\<exists>e w'. save_message example_env 7 ''system'' ''hi'' None None example_world = (Inl e, w')
     \<and> e \<in> {OperationalError, DataError, IntegrityError ''chk_content_length'',
              IntegrityError ''chk_valid_role''}
     \<and> chat_messages w' = chat_messages example_world
     \<and> db_txn w' = db_txn example_world + 1"
  using save_message_invalid_rejected_by_database
          [of "''system''" "''hi''" example_env 7 None None example_world]
  by simp

section \<open>Persistence of a turn\<close>

text \<open>
  Claim C4. After every successful \<open>process_query\<close>, the message table is the old one
  followed by exactly two rows of the returned session: a \<open>user\<close> row with the query and
  the selected text, then an \<open>assistant\<close> row with the returned answer, whose
  \<open>context_used\<close> lists title, file path and score of every retrieved chunk and their
  number. On the refusal branch (no point retrieved) the answer is the refusal message and
  that summary is the one of zero chunks.
\<close>

theorem process_query_persists_turn:
  assumes run: "process_query env query sid_opt sel w = (Inr (response, sources, sid), w')"
  shows "\<exists>v vs points mid_u mid_a t_u t_a.
           embed_content env (query_request env query) = Inr (v # vs)
         \<and> qdrant_search env (qdrant_collection_name (cfg env)) v (top_k_results (cfg env))
              (similarity_threshold (cfg env)) = Inr points
         \<and> chat_messages w' = chat_messages w @
              [\<lparr> message_id = mid_u, session_id = sid, role = ''user'', content = query,
                 selected_text = sel, context_used = None, created_at = t_u \<rparr>,
               \<lparr> message_id = mid_a, session_id = sid, role = ''assistant'', content = response,
                 selected_text = None,
                 context_used = Some
                   \<lparr> cm_chunks = map (\<lambda>p. \<lparr> cs_title = title (chunk_of_point p),
                                             cs_file_path = file_path (chunk_of_point p),
                                             cs_relevance_score = sp_score p \<rparr>) points,
                     retrieval_count = length points \<rparr>,
                 created_at = t_a \<rparr>]
         \<and> (points = [] \<longrightarrow> response = refusal_message \<and> sources = [])"
proof -
  from run obtain chunks w1 mid w2 mid' where
    ra: "retrieve_and_answer env query sid_opt sel w = (Inr (sid, chunks, response, sources), w1)"
    and su: "save_message env sid ''user'' query sel None w1 = (Inr mid, w2)"
    and sa: "save_message env sid ''assistant'' response None (Some (context_metadata_of chunks)) w2
               = (Inr mid', w')"
    by (rule process_query_Inr)
  from ra obtain v vs points where
    emb: "embed_content env (query_request env query) = Inr (v # vs)"
    and srch: "qdrant_search env (qdrant_collection_name (cfg env)) v (top_k_results (cfg env))
                 (similarity_threshold (cfg env)) = Inr points"
    and chunks: "chunks = map chunk_of_point points"
    and ref: "chunks = [] \<longrightarrow> response = refusal_message \<and> sources = []"
    and "chunks \<noteq> [] \<longrightarrow> format_sources chunks = Inr sources"
    by (rule retrieve_and_answer_points)
  have m1: "chat_messages w1 = chat_messages w"
    using ra by (rule retrieve_and_answer_messages)
  have ctx: "context_metadata_of chunks =
               \<lparr> cm_chunks = map (\<lambda>p. \<lparr> cs_title = title (chunk_of_point p),
                                         cs_file_path = file_path (chunk_of_point p),
                                         cs_relevance_score = sp_score p \<rparr>) points,
                 retrieval_count = length points \<rparr>"
    by (simp add: context_metadata_of_def chunks comp_def chunk_of_point_def)
  have "chat_messages w' = chat_messages w @
              [\<lparr> message_id = mid, session_id = sid, role = ''user'', content = query,
                 selected_text = sel, context_used = None,
                 created_at = utcnow env (clock_reads w1) \<rparr>,
               \<lparr> message_id = mid', session_id = sid, role = ''assistant'', content = response,
                 selected_text = None,
                 context_used = Some
                   \<lparr> cm_chunks = map (\<lambda>p. \<lparr> cs_title = title (chunk_of_point p),
                                             cs_file_path = file_path (chunk_of_point p),
                                             cs_relevance_score = sp_score p \<rparr>) points,
                     retrieval_count = length points \<rparr>,
                 created_at = utcnow env (clock_reads w2) \<rparr>]"
    using save_message_Inr(1) [OF su] save_message_Inr(1) [OF sa] m1 ctx by simp
  moreover have "points = [] \<longrightarrow> response = refusal_message \<and> sources = []"
    using ref chunks by simp
  ultimately show ?thesis using emb srch by blast
qed

text \<open>
  A refused query with selected text, in a new session.
\<close>

theorem process_query_persists_turn_witness:
  "\<exists>mid_u mid_a t_u t_a.
     chat_messages (snd (process_query (example_env\<lparr>qdrant_search := (\<lambda>coll v k t. Inr [])\<rparr>)
                           ''What is the GDP of France?'' None (Some ''GDP'') example_world)) =
       [\<lparr> message_id = mid_u, session_id = 100, role = ''user'',
          content = ''What is the GDP of France?'', selected_text = Some ''GDP'',
          context_used = None, created_at = t_u \<rparr>,
        \<lparr> message_id = mid_a, session_id = 100, role = ''assistant'',
          content = refusal_message, selected_text = None,
          context_used = Some \<lparr> cm_chunks = [], retrieval_count = 0 \<rparr>, created_at = t_a \<rparr>]"
proof -
  let ?env = "example_env\<lparr>qdrant_search := (\<lambda>coll v k t. Inr [])\<rparr>"
  let ?q = "''What is the GDP of France?''"
  let ?run = "process_query ?env ?q None (Some ''GDP'') example_world"
  have res: "fst ?run = Inr (refusal_message, [], 100)"
    by (simp add: run_defs refusal_length refusal_nul_free)
  then have run: "?run = (Inr (refusal_message, [], 100), snd ?run)"
    by (metis prod.collapse)
  have emb: "embed_content ?env (query_request ?env ?q) = Inr [[1, 0]]"
    by (simp add: example_env_def)
  have srch: "qdrant_search ?env (qdrant_collection_name (cfg ?env)) v (top_k_results (cfg ?env))
                (similarity_threshold (cfg ?env)) = Inr []" for v
    by simp
  have empty: "chat_messages example_world = []"
    by (simp add: example_world_def)
  from process_query_persists_turn [OF run] show ?thesis
    unfolding emb srch empty by auto
qed

section \<open>Reading a conversation\<close>

lemma select_messages_sorted: "sorted (map created_at (select_messages sid w))"
  by (simp add: select_messages_def)

text \<open>
  Claim C5. On a reachable database, \<open>get_conversation_history\<close> returns, for every
  session ID, exactly the messages of that session (as a multiset), in non-decreasing
  order of creation time; for a session ID without stored messages it returns the empty
  list, not an error.
\<close>

theorem get_conversation_history_sorted:
  assumes "\<not> db_down env (db_txn w)"
  shows "\<exists>h. get_conversation_history env sid w = (Inr h, w\<lparr>db_txn := db_txn w + 1\<rparr>)
           \<and> sorted (map h_created_at h)
           \<and> mset h = mset (map history_entry_of
                               (filter (\<lambda>m. session_id m = sid) (chat_messages w)))
           \<and> (sid \<notin> session_id ` set (chat_messages w) \<longrightarrow> h = [])"
proof -
  let ?h = "map history_entry_of (select_messages sid w)"
  have run: "get_conversation_history env sid w = (Inr ?h, w\<lparr>db_txn := db_txn w + 1\<rparr>)"
    using assms by (simp add: get_conversation_history_def Let_def)
  have "map h_created_at ?h = map created_at (select_messages sid w)"
    by (simp add: history_entry_of_def comp_def)
  then have srt: "sorted (map h_created_at ?h)"
    by (simp only: select_messages_sorted)
  have perm: "mset ?h = mset (map history_entry_of
                               (filter (\<lambda>m. session_id m = sid) (chat_messages w)))"
    by (simp add: select_messages_def)
  have none: "sid \<notin> session_id ` set (chat_messages w) \<longrightarrow> ?h = []"
  proof
    assume "sid \<notin> session_id ` set (chat_messages w)"
    then have "filter (\<lambda>m. session_id m = sid) (chat_messages w) = []"
      by (auto simp: filter_empty_conv)
    then show "?h = []" by (simp add: select_messages_def)
  qed
  from run srt perm none show ?thesis by blast
qed

text \<open>
  Session 7 has two messages, returned oldest first; session 9 has none.
\<close>

theorem get_conversation_history_sorted_witness:
  "(\<exists>h. fst (get_conversation_history example_env 7
              (example_world\<lparr>chat_messages := example_messages\<rparr>)) = Inr h
        \<and> map h_message_id h = [3, 1] \<and> sorted (map h_created_at h))
   \<and> fst (get_conversation_history example_env 9
              (example_world\<lparr>chat_messages := example_messages\<rparr>)) = Inr []"
proof -
  let ?w = "example_world\<lparr>chat_messages := example_messages\<rparr>"
  have up: "\<not> db_down example_env (db_txn ?w)"
    by (simp add: example_env_def)
  have unknown: "9 \<notin> session_id ` set (chat_messages ?w)"
    by (simp add: example_messages_def)
  have ev: "map h_message_id (map history_entry_of (select_messages 7 ?w)) = [3, 1]"
    by (simp add: select_messages_def example_messages_def history_entry_of_def)
  from get_conversation_history_sorted [OF up, of 7]
       get_conversation_history_sorted [OF up, of 9] unknown ev
  show ?thesis
    by (auto simp: get_conversation_history_def Let_def)
qed

section \<open>Prior turns in the prompt\<close>

text \<open>
  For a positive \<open>max_conversation_context\<close>, the prompt holds the last
  \<open>max_conversation_context\<close> messages, role and content unchanged, then one \<open>user\<close> turn.
\<close>

lemma py_slice_from_neg:
  "0 < n \<Longrightarrow> py_slice_from xs (- n) = drop (length xs - nat n) xs"
  by (auto simp: py_slice_from_def max_def nat_diff_distrib' intro: arg_cong[where f="\<lambda>k. drop k xs"])

lemma build_conversation_history_last_n:
  assumes "0 < max_conversation_context st"
  shows "\<exists>turn. build_conversation_history st h q sel =
           map (\<lambda>msg. \<lparr> c_role = h_role msg, c_parts = [h_content msg] \<rparr>)
               (drop (length h - nat (max_conversation_context st)) h) @ [turn]
         \<and> c_role turn = ''user''"
  using assms
  by (auto simp: build_conversation_history_def py_slice_from_neg split: option.splits)

text \<open>
  Claim C6. With \<open>max_conversation_context = 0\<close> the slice
  \<open>conversation_messages[-0:]\<close> is the whole list: all three messages of the history are
  sent as prior turns, where "the most recent 0 messages" are none.
\<close>

theorem build_conversation_history_zero_context_keeps_all:
  "build_conversation_history (default_settings\<lparr>max_conversation_context := 0\<rparr>)
     (map history_entry_of example_messages) ''And nodes?'' None =
   [\<lparr> c_role = ''user'', c_parts = [''What is ROS2?''] \<rparr>,
    \<lparr> c_role = ''user'', c_parts = [''Hello''] \<rparr>,
    \<lparr> c_role = ''assistant'', c_parts = [''A middleware.''] \<rparr>,
    \<lparr> c_role = ''user'', c_parts = [''And nodes?''] \<rparr>]"
  by (simp add: build_conversation_history_def py_slice_from_def default_settings_def
      example_messages_def history_entry_of_def)

section \<open>Encoding modes of the embedding provider\<close>

text \<open>
  Claim C7. For every text, \<open>generate_embedding\<close> sends one request with task type
  \<open>RETRIEVAL_QUERY\<close>; for every list of texts, \<open>generate_embeddings_batch\<close> sends one
  request with task type \<open>RETRIEVAL_DOCUMENT\<close>; the two task types differ, whatever
  the model, the inputs and the state.
\<close>

theorem embedding_task_types:
  "embed_log (snd (generate_embedding env text w)) =
     embed_log w @ [\<lparr> e_model = gemini_embedding_model (cfg env), e_contents = Single text,
                      task_type = ''RETRIEVAL_QUERY'' \<rparr>]
   \<and> embed_log (snd (generate_embeddings_batch env texts w)) =
     embed_log w @ [\<lparr> e_model = gemini_embedding_model (cfg env), e_contents = Batch texts,
                      task_type = ''RETRIEVAL_DOCUMENT'' \<rparr>]
   \<and> task_type (last (embed_log (snd (generate_embedding env text w)))) \<noteq>
     task_type (last (embed_log (snd (generate_embeddings_batch env' texts w'))))"
  by (simp add: generate_embedding_def generate_embeddings_batch_def query_request_def Let_def
      split: sum.splits list.splits)

section \<open>Failures and partial persistence\<close>

text \<open>
  Claim C8. When steps 1 to 7 succeed, the save of the user message succeeds and the save
  of the assistant message fails with \<open>e\<close>, \<open>process_query\<close> raises \<open>e\<close> and the message
  table is the old one followed by the user row: nothing removes it. When one of the steps
  1 to 7 fails, or the save of the user message itself, \<open>process_query\<close> raises that error
  and the message table is unchanged.
\<close>

theorem process_query_no_rollback:
  "(retrieve_and_answer env query sid_opt sel w = (Inr (sid, chunks, response, sources), w1)
      \<and> save_message env sid ''user'' query sel None w1 = (Inr mid, w2)
      \<and> save_message env sid ''assistant'' response None (Some (context_metadata_of chunks)) w2
           = (Inl e, w3)
    \<longrightarrow> process_query env query sid_opt sel w = (Inl e, w3)
        \<and> chat_messages w3 = chat_messages w @
             [\<lparr> message_id = mid, session_id = sid, role = ''user'', content = query,
                selected_text = sel, context_used = None,
                created_at = utcnow env (clock_reads w1) \<rparr>])
   \<and> (retrieve_and_answer env query sid_opt sel w = (Inl e', w4)
    \<longrightarrow> process_query env query sid_opt sel w = (Inl e', w4)
        \<and> chat_messages w4 = chat_messages w)
   \<and> (retrieve_and_answer env query sid_opt sel w = (Inr (sid, chunks, response, sources), w1)
      \<and> save_message env sid ''user'' query sel None w1 = (Inl e'', w5)
    \<longrightarrow> process_query env query sid_opt sel w = (Inl e'', w5)
        \<and> chat_messages w5 = chat_messages w)"
proof (intro conjI impI)
  assume a: "retrieve_and_answer env query sid_opt sel w = (Inr (sid, chunks, response, sources), w1)
      \<and> save_message env sid ''user'' query sel None w1 = (Inr mid, w2)
      \<and> save_message env sid ''assistant'' response None (Some (context_metadata_of chunks)) w2
           = (Inl e, w3)"
  then have ra: "retrieve_and_answer env query sid_opt sel w
                   = (Inr (sid, chunks, response, sources), w1)"
    and su: "save_message env sid ''user'' query sel None w1 = (Inr mid, w2)"
    and sa: "save_message env sid ''assistant'' response None
               (Some (context_metadata_of chunks)) w2 = (Inl e, w3)"
    by simp_all
  show "process_query env query sid_opt sel w = (Inl e, w3)"
    by (simp add: process_query_split persist_turn_def bind_io_def ra su sa)
  have "chat_messages w1 = chat_messages w"
    using ra by (rule retrieve_and_answer_messages)
  then show "chat_messages w3 = chat_messages w @
             [\<lparr> message_id = mid, session_id = sid, role = ''user'', content = query,
                selected_text = sel, context_used = None,
                created_at = utcnow env (clock_reads w1) \<rparr>]"
    using save_message_Inr(1) [OF su] save_message_Inl(1) [OF sa] by simp
next
  assume ra: "retrieve_and_answer env query sid_opt sel w = (Inl e', w4)"
  show "process_query env query sid_opt sel w = (Inl e', w4)"
    by (simp add: process_query_split bind_io_def ra)
  show "chat_messages w4 = chat_messages w"
    using ra by (rule retrieve_and_answer_messages)
next
  assume a: "retrieve_and_answer env query sid_opt sel w = (Inr (sid, chunks, response, sources), w1)
      \<and> save_message env sid ''user'' query sel None w1 = (Inl e'', w5)"
  then have ra: "retrieve_and_answer env query sid_opt sel w
                   = (Inr (sid, chunks, response, sources), w1)"
    and su: "save_message env sid ''user'' query sel None w1 = (Inl e'', w5)"
    by simp_all
  show "process_query env query sid_opt sel w = (Inl e'', w5)"
    by (simp add: process_query_split persist_turn_def bind_io_def ra su)
  have "chat_messages w1 = chat_messages w"
    using ra by (rule retrieve_and_answer_messages)
  then show "chat_messages w5 = chat_messages w"
    using save_message_Inl(1) [OF su] by simp
qed

text \<open>
  A database that fails at its third transaction (the assistant save) leaves the user
  row behind; one that fails at its second transaction (the user save) and an embedding
  failure leave the table empty.
\<close>

theorem process_query_no_rollback_witness:
  "fst (process_query (example_env\<lparr>qdrant_search := (\<lambda>coll v k t. Inr []),
                                    db_down := (\<lambda>n. n = 2)\<rparr>)
          ''What is the GDP of France?'' (Some 7) None example_world) = Inl OperationalError
   \<and> chat_messages (snd (process_query (example_env\<lparr>qdrant_search := (\<lambda>coll v k t. Inr []),
                                                     db_down := (\<lambda>n. n = 2)\<rparr>)
          ''What is the GDP of France?'' (Some 7) None example_world)) =
       [\<lparr> message_id = 100, session_id = 7, role = ''user'',
          content = ''What is the GDP of France?'', selected_text = None, context_used = None,
          created_at = 1000 \<rparr>]
   \<and> fst (process_query (example_env\<lparr>embed_content := (\<lambda>req. Inl GeminiError)\<rparr>)
          ''What is ROS2?'' (Some 7) None example_world) = Inl GeminiError
   \<and> chat_messages (snd (process_query (example_env\<lparr>embed_content := (\<lambda>req. Inl GeminiError)\<rparr>)
          ''What is ROS2?'' (Some 7) None example_world)) = []
   \<and> fst (process_query (example_env\<lparr>qdrant_search := (\<lambda>coll v k t. Inr []),
                                      db_down := (\<lambda>n. n = 1)\<rparr>)
          ''What is the GDP of France?'' (Some 7) None example_world) = Inl OperationalError
   \<and> chat_messages (snd (process_query (example_env\<lparr>qdrant_search := (\<lambda>coll v k t. Inr []),
                                                     db_down := (\<lambda>n. n = 1)\<rparr>)
          ''What is the GDP of France?'' (Some 7) None example_world)) = []"
proof -
  let ?q = "''What is the GDP of France?''"
  let ?env = "example_env\<lparr>qdrant_search := (\<lambda>coll v k t. Inr []), db_down := (\<lambda>n. n = 2)\<rparr>"
  let ?ra = "retrieve_and_answer ?env ?q (Some 7) None example_world"
  let ?w1 = "snd ?ra"
  let ?su = "save_message ?env 7 ''user'' ?q None None ?w1"
  let ?w2 = "snd ?su"
  let ?sa = "save_message ?env 7 ''assistant'' refusal_message None
               (Some (context_metadata_of [])) ?w2"
  let ?env' = "example_env\<lparr>embed_content := (\<lambda>req. Inl GeminiError)\<rparr>"
  let ?ra' = "retrieve_and_answer ?env' ''What is ROS2?'' (Some 7) None example_world"
  let ?env'' = "example_env\<lparr>qdrant_search := (\<lambda>coll v k t. Inr []), db_down := (\<lambda>n. n = 1)\<rparr>"
  let ?ra'' = "retrieve_and_answer ?env'' ?q (Some 7) None example_world"
  let ?su'' = "save_message ?env'' 7 ''user'' ?q None None (snd ?ra'')"
  have ra: "?ra = (Inr (7, [], refusal_message, []), ?w1)"
    by (simp add: run_defs)
  have w1: "?w1 = example_world\<lparr>db_txn := 1,
               embed_log := [query_request ?env ?q]\<rparr>"
    by (simp add: run_defs)
  have su: "?su = (Inr 100, ?w2)"
    by (simp add: w1) (simp add: run_defs)
  have w2: "db_txn ?w2 = 2"
    by (simp add: w1) (simp add: run_defs)
  have sa: "?sa = (Inl OperationalError, snd ?sa)"
    using w2 by (simp add: save_message_def new_message_row_def commit_message_def bind_io_def
        Let_def example_env_def)
  have t: "utcnow ?env (clock_reads ?w1) = 1000"
    by (simp add: w1) (simp add: example_env_def example_world_def)
  have ra': "?ra' = (Inl GeminiError, snd ?ra')"
    by (simp add: run_defs)
  have ra'': "?ra'' = (Inr (7, [], refusal_message, []), snd ?ra'')"
    by (simp add: run_defs)
  have w1'': "db_txn (snd ?ra'') = 1"
    by (simp add: run_defs)
  have su'': "?su'' = (Inl OperationalError, snd ?su'')"
    using w1'' by (simp add: save_message_def new_message_row_def commit_message_def bind_io_def
        Let_def example_env_def)
  from process_query_no_rollback
         [where env = ?env and query = ?q and sid_opt = "Some 7" and sel = None
            and w = example_world and sid = 7 and chunks = "[]" and response = refusal_message
            and sources = "[]" and ?w1.0 = ?w1 and mid = 100 and ?w2.0 = ?w2
            and e = OperationalError and ?w3.0 = "snd ?sa"]
       ra su sa t
  have first: "process_query ?env ?q (Some 7) None example_world = (Inl OperationalError, snd ?sa)
     \<and> chat_messages (snd ?sa) = chat_messages example_world @
         [\<lparr> message_id = 100, session_id = 7, role = ''user'', content = ?q,
            selected_text = None, context_used = None, created_at = 1000 \<rparr>]"
    by simp
  from process_query_no_rollback
         [where env = ?env' and query = "''What is ROS2?''" and sid_opt = "Some 7" and sel = None
            and w = example_world and e' = GeminiError and ?w4.0 = "snd ?ra'"]
       ra'
  have second: "process_query ?env' ''What is ROS2?'' (Some 7) None example_world
                  = (Inl GeminiError, snd ?ra')
     \<and> chat_messages (snd ?ra') = chat_messages example_world"
    by simp
  from process_query_no_rollback
         [where env = ?env'' and query = ?q and sid_opt = "Some 7" and sel = None
            and w = example_world and sid = 7 and chunks = "[]" and response = refusal_message
            and sources = "[]" and ?w1.0 = "snd ?ra''" and e'' = OperationalError
            and ?w5.0 = "snd ?su''"]
       ra'' su''
  have third: "process_query ?env'' ?q (Some 7) None example_world
                 = (Inl OperationalError, snd ?su'')
     \<and> chat_messages (snd ?su'') = chat_messages example_world"
    by simp
  from first second third show ?thesis
    by (simp add: example_world_def)
qed

section \<open>Sessions and messages\<close>

lemma integrity_mono:
  assumes "messages_reference_sessions w" and "chat_messages w' = chat_messages w"
    and "set (chat_sessions w) \<subseteq> set (chat_sessions w')"
  shows "messages_reference_sessions w'"
proof -
  from assms(3) have "session_ids w \<subseteq> session_ids w'"
    unfolding session_ids_def by (rule image_mono)
  with assms(1,2) show ?thesis
    unfolding messages_reference_sessions_def by simp
qed

lemma save_message_keeps_integrity:
  assumes "save_message env sid r c sel ctx w = (res, w')" and "messages_reference_sessions w"
  shows "messages_reference_sessions w'"
proof (cases res)
  case (Inl e)
  with assms show ?thesis
    using save_message_Inl [of env sid r c sel ctx w e w']
    by (simp add: messages_reference_sessions_def session_ids_def)
next
  case (Inr mid)
  with assms show ?thesis
    using save_message_Inr [of env sid r c sel ctx w mid w']
    by (simp add: messages_reference_sessions_def session_ids_def)
qed

lemma persist_turn_keeps_integrity:
  assumes "persist_turn env sid query sel chunks response sources w1 = (r, w')"
    and "messages_reference_sessions w1"
  shows "messages_reference_sessions w'"
  using assms(1)
proof (cases rule: persist_turn_cases)
  case (user_failed e)
  then show ?thesis using assms(2) save_message_keeps_integrity by blast
next
  case (assistant_failed mid w2 e)
  then show ?thesis using assms(2) save_message_keeps_integrity by blast
next
  case (saved mid w2 mid')
  then show ?thesis using assms(2) save_message_keeps_integrity by blast
qed

lemma process_query_keeps_integrity:
  assumes "messages_reference_sessions w"
  shows "messages_reference_sessions (snd (process_query env query sid_opt sel w))"
proof -
  obtain r w' where run: "process_query env query sid_opt sel w = (r, w')"
    by (cases "process_query env query sid_opt sel w") auto
  then have "bind_io (retrieve_and_answer env query sid_opt sel)
       (\<lambda>(sid, retrieved_chunks, response, sources).
          persist_turn env sid query sel retrieved_chunks response sources) w = (r, w')"
    by (simp only: process_query_split)
  then have "messages_reference_sessions w'"
  proof (cases rule: bind_ioE)
    case (fail e)
    from assms retrieve_and_answer_messages [OF fail(1)]
      retrieve_and_answer_sessions_any [OF fail(1)]
    show ?thesis by (rule integrity_mono)
  next
    case (ok x w1)
    from assms retrieve_and_answer_messages [OF ok(1)]
      retrieve_and_answer_sessions_any [OF ok(1)]
    have "messages_reference_sessions w1"
      by (rule integrity_mono)
    with ok(2) show ?thesis
      by (cases x) (auto dest: persist_turn_keeps_integrity)
  qed
  with run show ?thesis by simp
qed

text \<open>
  Claim C9. \<open>save_message\<close> never changes the session table, and it succeeds only for a
  session that is stored; \<open>process_query\<close> keeps every stored message attached to a stored
  session. Without a supplied session ID, the session that steps 1 to 7 hand to the saves
  is stored by then. A supplied session ID is taken as it is, without any access to the
  store; if it is unknown, the history read on a reachable database returns the empty
  list, not an error.
\<close>

theorem message_write_never_creates_session:
  "chat_sessions (snd (save_message env sid r c sel ctx w)) = chat_sessions w
   \<and> (save_message env sid r c sel ctx w = (Inr mid, w') \<longrightarrow> sid \<in> session_ids w)
   \<and> (messages_reference_sessions w
        \<longrightarrow> messages_reference_sessions (snd (process_query env query sid_opt sel w)))
   \<and> (retrieve_and_answer env query None sel w = (Inr (sid', chunks, response, sources), w1)
        \<longrightarrow> sid' \<in> session_ids w1)
   \<and> resolve_session env (Some sid) w = (Inr sid, w)
   \<and> (messages_reference_sessions w \<and> sid \<notin> session_ids w \<and> \<not> db_down env (db_txn w)
        \<longrightarrow> get_conversation_history env sid w = (Inr [], w\<lparr>db_txn := db_txn w + 1\<rparr>))"
proof (intro conjI impI)
  show "chat_sessions (snd (save_message env sid r c sel ctx w)) = chat_sessions w"
    by (rule save_message_effect(1) [of env sid r c sel ctx w
          "fst (save_message env sid r c sel ctx w)"]) simp
  show "sid \<in> session_ids w" if "save_message env sid r c sel ctx w = (Inr mid, w')"
    using that by (rule save_message_Inr(2))
  show "messages_reference_sessions (snd (process_query env query sid_opt sel w))"
    if "messages_reference_sessions w"
    using that by (rule process_query_keeps_integrity)
  show "sid' \<in> session_ids w1"
    if "retrieve_and_answer env query None sel w = (Inr (sid', chunks, response, sources), w1)"
    using that by (rule retrieve_and_answer_sessions(2)) simp
  show "resolve_session env (Some sid) w = (Inr sid, w)"
    by (simp add: resolve_session_def return_io_def)
  show "get_conversation_history env sid w = (Inr [], w\<lparr>db_txn := db_txn w + 1\<rparr>)"
    if a: "messages_reference_sessions w \<and> sid \<notin> session_ids w \<and> \<not> db_down env (db_txn w)"
  proof -
    from a have "sid \<notin> session_id ` set (chat_messages w)"
      by (auto simp: messages_reference_sessions_def)
    then have "filter (\<lambda>m. session_id m = sid) (chat_messages w) = []"
      by (auto simp: filter_empty_conv)
    with a show ?thesis
      by (simp add: get_conversation_history_def select_messages_def Let_def)
  qed
qed

text \<open>
  Session 9 is unknown: the save is refused by the foreign key and creates no session,
  the ID is taken as it is, and its history is empty. Session 7 is stored and the save
  succeeds; a query without session ID gets the new session 100.
\<close>

theorem message_write_never_creates_session_witness:
  "chat_sessions (snd (save_message example_env 9 ''user'' ''hi'' None None example_world))
     = chat_sessions example_world
   \<and> fst (save_message example_env 9 ''user'' ''hi'' None None example_world)
     = Inl (IntegrityError ''chat_messages_session_id_fkey'')
   \<and> fst (save_message example_env 7 ''user'' ''hi'' None None example_world) = Inr 100
   \<and> 7 \<in> session_ids example_world
   \<and> messages_reference_sessions
       (snd (process_query (example_env\<lparr>qdrant_search := (\<lambda>coll v k t. Inr [])\<rparr>)
               ''What is the GDP of France?'' None None example_world))
   \<and> 100 \<in> session_ids
       (snd (retrieve_and_answer (example_env\<lparr>qdrant_search := (\<lambda>coll v k t. Inr [])\<rparr>)
               ''What is the GDP of France?'' None None example_world))
   \<and> resolve_session example_env (Some 9) example_world = (Inr 9, example_world)
   \<and> get_conversation_history example_env 9 example_world
       = (Inr [], example_world\<lparr>db_txn := db_txn example_world + 1\<rparr>)"
proof -
  let ?env = "example_env\<lparr>qdrant_search := (\<lambda>coll v k t. Inr [])\<rparr>"
  let ?q = "''What is the GDP of France?''"
  let ?ra = "retrieve_and_answer ?env ?q None None example_world"
  let ?ok = "save_message example_env 7 ''user'' ''hi'' None None example_world"
  have okf: "fst ?ok = Inr 100"
    by (simp add: run_defs)
  then have ok: "?ok = (Inr 100, snd ?ok)"
    by (metis prod.collapse)
  have bad: "fst (save_message example_env 9 ''user'' ''hi'' None None example_world)
               = Inl (IntegrityError ''chat_messages_session_id_fkey'')"
    by (simp add: run_defs)
  have inv: "messages_reference_sessions example_world"
    by (simp add: messages_reference_sessions_def example_world_def)
  have ra: "?ra = (Inr (100, [], refusal_message, []), snd ?ra)"
    by (simp add: run_defs)
  have unknown: "9 \<notin> session_ids example_world"
    by (simp add: session_ids_def example_world_def)
  have up: "\<not> db_down example_env (db_txn example_world)"
    by (simp add: example_env_def)
  from message_write_never_creates_session [where env = example_env and sid = 7 and r = "''user''" and c = "''hi''" and sel = None
             and ctx = None and w = example_world and mid = 100 and w' = "snd ?ok"] ok
  have a: "7 \<in> session_ids example_world" by simp
  from message_write_never_creates_session [where env = ?env and query = ?q and sid_opt = None and sel = None
             and w = example_world and sid' = 100 and chunks = "[]"
             and response = refusal_message and sources = "[]" and ?w1.0 = "snd ?ra"] inv ra
  have b: "messages_reference_sessions (snd (process_query ?env ?q None None example_world))
           \<and> 100 \<in> session_ids (snd ?ra)"
    by simp
  from message_write_never_creates_session [where env = example_env and sid = 9 and r = "''user''" and c = "''hi''" and sel = None
             and ctx = None and w = example_world] inv unknown up
  have c: "chat_sessions (snd (save_message example_env 9 ''user'' ''hi'' None None example_world))
             = chat_sessions example_world
           \<and> resolve_session example_env (Some 9) example_world = (Inr 9, example_world)
           \<and> get_conversation_history example_env 9 example_world
               = (Inr [], example_world\<lparr>db_txn := db_txn example_world + 1\<rparr>)"
    by simp
  from a b c bad okf show ?thesis by simp
qed

section \<open>Missing payload fields\<close>

lemma distinct_map_filter_one:
  "distinct (map f xs) \<Longrightarrow> y \<in> f ` set xs \<Longrightarrow> length (filter (\<lambda>x. f x = y) xs) = 1"
proof (induction xs)
  case Nil
  then show ?case by simp
next
  case (Cons x xs)
  show ?case
  proof (cases "f x = y")
    case True
    with Cons.prems have "y \<notin> f ` set xs" by auto
    then have "filter (\<lambda>x. f x = y) xs = []"
      by (auto simp: filter_empty_conv)
    with True show ?thesis by simp
  next
    case False
    with Cons show ?thesis by auto
  qed
qed

text \<open>
  Claim C10. \<open>search\<close> returns one chunk per point whenever the index answers, whatever
  fields the payloads lack: a missing title becomes \<open>Untitled\<close>, a missing file path or
  chunk text the empty string, a missing chunk index 0, a missing chunk count 1, and the
  score is the point's. When a point lacks its file path and the sources are built, exactly
  one source has the empty file path: all such chunks fall into it.
\<close>

theorem search_defaults_for_missing_fields:
  "(qdrant_search env (qdrant_collection_name (cfg env)) v k t = Inr points
      \<longrightarrow> search env v k t w = (Inr (map chunk_of_point points), w))
   \<and> (p_title (sp_payload p) = None \<longrightarrow> title (chunk_of_point p) = ''Untitled'')
   \<and> (p_file_path (sp_payload p) = None \<longrightarrow> file_path (chunk_of_point p) = '''')
   \<and> (p_chunk_text (sp_payload p) = None \<longrightarrow> chunk_text (chunk_of_point p) = '''')
   \<and> (p_chunk_index (sp_payload p) = None \<longrightarrow> chunk_index (chunk_of_point p) = 0)
   \<and> (p_total_chunks (sp_payload p) = None \<longrightarrow> total_chunks (chunk_of_point p) = 1)
   \<and> relevance_score (chunk_of_point p) = sp_score p
   \<and> (p \<in> set points \<and> p_file_path (sp_payload p) = None
        \<and> format_sources (map chunk_of_point points) = Inr sources
      \<longrightarrow> length (filter (\<lambda>s. src_file_path s = '''') sources) = 1)"
proof -
  have collapse: "length (filter (\<lambda>s. src_file_path s = '''') sources) = 1"
    if "p \<in> set points" "p_file_path (sp_payload p) = None"
       "format_sources (map chunk_of_point points) = Inr sources"
  proof -
    from that(1,2) have "'''' \<in> file_path ` set (map chunk_of_point points)"
      by (force simp: chunk_of_point_def)
    with format_sources_props [OF that(3)]
    have "distinct (map src_file_path sources)" "'''' \<in> src_file_path ` set sources"
      by simp_all
    then show ?thesis by (rule distinct_map_filter_one)
  qed
  show ?thesis
    using collapse by (auto simp: search_def chunk_of_point_def)
qed

text \<open>
  Two of the three points lack a file path; they share one source, the one of the
  higher score.
\<close>

theorem search_defaults_for_missing_fields_witness:
  "search (example_env\<lparr>qdrant_search := (\<lambda>coll v k t. Inr example_bare_points)\<rparr>) [1, 0] 5 0.6
     example_world
     = (Inr [\<lparr> title = ''Untitled'', file_path = '''', chunk_text = ''First orphan text.'',
               chunk_index = 0, total_chunks = 1, relevance_score = 0.9 \<rparr>,
             \<lparr> title = ''Nodes'', file_path = ''ros2/nodes.md'',
               chunk_text = ''A node is a process that computes.'',
               chunk_index = 0, total_chunks = 1, relevance_score = 0.8 \<rparr>,
             \<lparr> title = ''Other'', file_path = '''', chunk_text = '''',
               chunk_index = 3, total_chunks = 4, relevance_score = 0.7 \<rparr>], example_world)
   \<and> format_sources (map chunk_of_point example_bare_points) =
       Inr [\<lparr> src_title = ''Untitled'', src_file_path = '''', src_relevance_score = 0.9,
              excerpt = ''First orphan text.'' \<rparr>,
            \<lparr> src_title = ''Nodes'', src_file_path = ''ros2/nodes.md'',
              src_relevance_score = 0.8, excerpt = ''A node is a process that computes.'' \<rparr>]
   \<and> length (filter (\<lambda>s. src_file_path s = '''')
        [\<lparr> src_title = ''Untitled'', src_file_path = '''', src_relevance_score = 0.9,
              excerpt = ''First orphan text.'' \<rparr>,
            \<lparr> src_title = ''Nodes'', src_file_path = ''ros2/nodes.md'',
              src_relevance_score = 0.8, excerpt = ''A node is a process that computes.'' \<rparr>]) = 1"
proof -
  let ?env = "example_env\<lparr>qdrant_search := (\<lambda>coll v k t. Inr example_bare_points)\<rparr>"
  let ?p = "\<lparr> sp_payload = \<lparr> p_title = None, p_file_path = None,
                       p_chunk_text = Some ''First orphan text.'',
                       p_chunk_index = None, p_total_chunks = None \<rparr>,
        sp_score = 0.9 \<rparr>"
  let ?srcs = "[\<lparr> src_title = ''Untitled'', src_file_path = '''', src_relevance_score = 0.9,
              excerpt = ''First orphan text.'' \<rparr>,
            \<lparr> src_title = ''Nodes'', src_file_path = ''ros2/nodes.md'',
              src_relevance_score = 0.8, excerpt = ''A node is a process that computes.'' \<rparr>]"
  have q: "qdrant_search ?env (qdrant_collection_name (cfg ?env)) [1, 0] 5 0.6
             = Inr example_bare_points"
    by simp
  have mem: "?p \<in> set example_bare_points"
    by (simp add: example_bare_points_def)
  have missing: "p_file_path (sp_payload ?p) = None" "p_title (sp_payload ?p) = None"
    "p_chunk_index (sp_payload ?p) = None" "p_total_chunks (sp_payload ?p) = None"
    by simp_all
  have fmt: "format_sources (map chunk_of_point example_bare_points) = Inr ?srcs"
    by (simp add: format_sources_def dedupe_def keep_best_def chunk_of_point_def
        example_bare_points_def Source_def sort_by_score_desc_def)
  have chunks: "map chunk_of_point example_bare_points =
      [\<lparr> title = ''Untitled'', file_path = '''', chunk_text = ''First orphan text.'',
               chunk_index = 0, total_chunks = 1, relevance_score = 0.9 \<rparr>,
             \<lparr> title = ''Nodes'', file_path = ''ros2/nodes.md'',
               chunk_text = ''A node is a process that computes.'',
               chunk_index = 0, total_chunks = 1, relevance_score = 0.8 \<rparr>,
             \<lparr> title = ''Other'', file_path = '''', chunk_text = '''',
               chunk_index = 3, total_chunks = 4, relevance_score = 0.7 \<rparr>]"
    by (simp add: chunk_of_point_def example_bare_points_def)
  from search_defaults_for_missing_fields [of ?env "[1, 0]" 5 "0.6" example_bare_points example_world ?p ?srcs]
    q mem missing fmt chunks
  show ?thesis by simp
qed

end
